theory Spec2Isabelle
  imports Main
begin

section \<open>Numbers and their decimal text\<close>

text \<open>
  The helpers of \<^verbatim>\<open>auth.helper.ts\<close> handle identifiers and timestamps as JavaScript
  numbers. Identifiers are database keys and timestamps are milliseconds since the epoch,
  so both are modelled as mathematical integers. \<^verbatim>\<open>Number.prototype.toString()\<close> of an
  integer of magnitude below \<open>10 ^ 21\<close> is its decimal text, with a minus sign for a
  negative one.
\<close>

definition digit_char :: "nat \<Rightarrow> char" where
  "digit_char d = char_of (48 + d)"

fun decimal :: "nat \<Rightarrow> string" where
  "decimal n = (if n < 10 then [digit_char n] else decimal (n div 10) @ [digit_char (n mod 10)])"

declare decimal.simps [simp del]

definition toString :: "int \<Rightarrow> string" where
  "toString i = (if i < 0 then CHR ''-'' # decimal (nat (- i)) else decimal (nat i))"

definition is_digit :: "char \<Rightarrow> bool" where
  "is_digit c = (48 \<le> (of_char c :: nat) \<and> (of_char c :: nat) \<le> 57)"

definition digit_value :: "char \<Rightarrow> nat" where
  "digit_value c = of_char c - 48"

definition decimal_value :: "string \<Rightarrow> nat" where
  "decimal_value s = foldl (\<lambda>acc c. 10 * acc + digit_value c) 0 s"

section \<open>MFA passcode generation\<close>

text \<open>
  \<^verbatim>\<open>crypto.randomInt(min, max)\<close> of the Node runtime returns an integer \<open>n\<close> with
  \<open>min \<le> n < max\<close>: the lower bound is inclusive, the upper bound exclusive. The draw of
  the random source is a parameter; every offset below \<open>max - min\<close> can be drawn. The
  helper calls it with \<open>min < max\<close> only.
\<close>

definition randomInt :: "int \<Rightarrow> int \<Rightarrow> nat \<Rightarrow> int" where
  "randomInt lo hi draw = lo + int (draw mod nat (hi - lo))"

text \<open>
  \<^verbatim>\<open>function generatePasscode(): string {
    return crypto.randomInt(100000, 999999).toString();
  }\<close>
\<close>

definition generatePasscode :: "nat \<Rightarrow> string" where
  "generatePasscode draw = toString (randomInt 100000 999999 draw)"

section \<open>The repository\<close>

text \<open>
  The relational store behind the Prisma client, reduced to the tables and columns the
  helpers read or write. A \<^verbatim>\<open>Date\<close> is its millisecond timestamp.
\<close>

type_synonym date = int

record admin =
  admin_id :: int
  admin_name :: string
  admin_email :: string
  admin_phone :: string
  admin_hotelId :: int

record adminVerification =
  ver_id :: int
  ver_adminId :: int
  ver_passcode :: string
  ver_expiresAt :: date
  ver_used :: bool
  ver_createdAt :: date

record guest =
  guest_id :: int
  guest_name :: string
  guest_email :: string

record hotelOrder =
  order_id :: int
  order_guestId :: int
  order_hotelId :: int

record db =
  admins :: "admin list"
  adminVerifications :: "adminVerification list"
  guests :: "guest list"
  orders :: "hotelOrder list"

text \<open>
  Every call of the Prisma client may reject (connection lost, constraint violated). The
  calls that reject are chosen by the environment: \<open>fl c\<close> holds when call \<open>c\<close> throws.
  A call that throws leaves the store as it was. Values thrown anywhere in the helpers
  are collected in \<open>thrown\<close>.
\<close>

datatype prisma_call =
  Admin_findUnique
  | AdminVerification_findFirst
  | AdminVerification_update
  | AdminVerification_deleteMany
  | Guest_findUnique
  | Guest_create
  | Guest_update
  | Order_findFirst

datatype thrown =
  PrismaError prisma_call
  | RecordNotFound
  | UniqueConstraint
  | JsonWebTokenError string
  | TokenExpiredError date
  | NotBeforeError date
  | TypeError string
  | OtherError string

type_synonym faults = "prisma_call \<Rightarrow> bool"

definition no_faults :: faults where
  "no_faults = (\<lambda>c. False)"

definition fresh_id :: "int list \<Rightarrow> int" where
  "fresh_id ids = 1 + foldr max ids 0"

text \<open>\<^verbatim>\<open>prisma.admin.findUnique({ where: { email } })\<close> and \<^verbatim>\<open>{ where: { id } }\<close>.\<close>

definition admin_findUnique_email :: "faults \<Rightarrow> db \<Rightarrow> string \<Rightarrow> thrown + admin option" where
  "admin_findUnique_email fl d email =
     (if fl Admin_findUnique then Inl (PrismaError Admin_findUnique)
      else Inr (find (\<lambda>a. admin_email a = email) (admins d)))"

definition admin_findUnique_id :: "faults \<Rightarrow> db \<Rightarrow> int \<Rightarrow> thrown + admin option" where
  "admin_findUnique_id fl d i =
     (if fl Admin_findUnique then Inl (PrismaError Admin_findUnique)
      else Inr (find (\<lambda>a. admin_id a = i) (admins d)))"

text \<open>
  \<^verbatim>\<open>prisma.adminVerification.findFirst({
    where: { adminId: admin.id, passcode, used: false, expiresAt: { gt: new Date() } },
    orderBy: { createdAt: "desc" } })\<close>
  Among the matching rows the one created last is returned; of rows created at the same
  instant the store returns the one it holds first.
\<close>

definition verification_matches :: "int \<Rightarrow> string \<Rightarrow> date \<Rightarrow> adminVerification \<Rightarrow> bool" where
  "verification_matches aid passcode now v =
     (ver_adminId v = aid \<and> ver_passcode v = passcode \<and> \<not> ver_used v \<and> now < ver_expiresAt v)"

definition latest :: "adminVerification list \<Rightarrow> adminVerification option" where
  "latest vs =
     (case vs of
        [] \<Rightarrow> None
      | v # rest \<Rightarrow>
          Some (foldl (\<lambda>best r. if ver_createdAt best < ver_createdAt r then r else best) v rest))"

definition adminVerification_findFirst ::
  "faults \<Rightarrow> db \<Rightarrow> int \<Rightarrow> string \<Rightarrow> date \<Rightarrow> thrown + adminVerification option" where
  "adminVerification_findFirst fl d aid passcode now =
     (if fl AdminVerification_findFirst then Inl (PrismaError AdminVerification_findFirst)
      else Inr (latest (filter (verification_matches aid passcode now) (adminVerifications d))))"

text \<open>
  \<^verbatim>\<open>prisma.adminVerification.update({ where: { id: verification.id }, data: { used: true } })\<close>
  The row is addressed by its key alone; the update rejects when no row has that key.
\<close>

definition mark_used :: "int \<Rightarrow> adminVerification \<Rightarrow> adminVerification" where
  "mark_used vid v = (if ver_id v = vid then v\<lparr>ver_used := True\<rparr> else v)"

definition adminVerification_update :: "faults \<Rightarrow> db \<Rightarrow> int \<Rightarrow> thrown + db" where
  "adminVerification_update fl d vid =
     (if fl AdminVerification_update then Inl (PrismaError AdminVerification_update)
      else if list_ex (\<lambda>v. ver_id v = vid) (adminVerifications d)
      then Inr (d\<lparr>adminVerifications := map (mark_used vid) (adminVerifications d)\<rparr>)
      else Inl RecordNotFound)"

text \<open>
  \<^verbatim>\<open>prisma.adminVerification.deleteMany({
    where: { adminId: admin.id, used: true, expiresAt: { lt: cutoff } } })\<close>
\<close>

definition stale :: "int \<Rightarrow> date \<Rightarrow> adminVerification \<Rightarrow> bool" where
  "stale aid cutoff v = (ver_adminId v = aid \<and> ver_used v \<and> ver_expiresAt v < cutoff)"

definition adminVerification_deleteMany :: "faults \<Rightarrow> db \<Rightarrow> int \<Rightarrow> date \<Rightarrow> thrown + db" where
  "adminVerification_deleteMany fl d aid cutoff =
     (if fl AdminVerification_deleteMany then Inl (PrismaError AdminVerification_deleteMany)
      else Inr (d\<lparr>adminVerifications := filter (\<lambda>v. \<not> stale aid cutoff v) (adminVerifications d)\<rparr>))"

text \<open>The guest table: \<^verbatim>\<open>findUnique\<close> by email or id, \<^verbatim>\<open>create\<close>, \<^verbatim>\<open>update\<close> of the name by id.\<close>

definition guest_findUnique_email :: "faults \<Rightarrow> db \<Rightarrow> string \<Rightarrow> thrown + guest option" where
  "guest_findUnique_email fl d email =
     (if fl Guest_findUnique then Inl (PrismaError Guest_findUnique)
      else Inr (find (\<lambda>g. guest_email g = email) (guests d)))"

definition guest_findUnique_id :: "faults \<Rightarrow> db \<Rightarrow> int \<Rightarrow> thrown + guest option" where
  "guest_findUnique_id fl d i =
     (if fl Guest_findUnique then Inl (PrismaError Guest_findUnique)
      else Inr (find (\<lambda>g. guest_id g = i) (guests d)))"

definition guest_create :: "faults \<Rightarrow> db \<Rightarrow> string \<Rightarrow> string \<Rightarrow> thrown + db \<times> guest" where
  "guest_create fl d email name =
     (if fl Guest_create then Inl (PrismaError Guest_create)
      else if list_ex (\<lambda>g. guest_email g = email) (guests d) then Inl UniqueConstraint
      else
        let g = \<lparr>guest_id = fresh_id (map guest_id (guests d)), guest_name = name,
                 guest_email = email\<rparr>
        in Inr (d\<lparr>guests := guests d @ [g]\<rparr>, g))"

definition rename_guest :: "int \<Rightarrow> string \<Rightarrow> guest \<Rightarrow> guest" where
  "rename_guest gid name g = (if guest_id g = gid then g\<lparr>guest_name := name\<rparr> else g)"

definition guest_update :: "faults \<Rightarrow> db \<Rightarrow> int \<Rightarrow> string \<Rightarrow> thrown + db \<times> guest" where
  "guest_update fl d gid name =
     (if fl Guest_update then Inl (PrismaError Guest_update)
      else
        case find (\<lambda>g. guest_id g = gid) (guests d) of
          None \<Rightarrow> Inl RecordNotFound
        | Some g \<Rightarrow> Inr (d\<lparr>guests := map (rename_guest gid name) (guests d)\<rparr>, g\<lparr>guest_name := name\<rparr>))"

text \<open>\<^verbatim>\<open>prisma.order.findFirst({ where: { guestId, hotelId }, select: { id: true } })\<close>\<close>

definition order_findFirst :: "faults \<Rightarrow> db \<Rightarrow> int \<Rightarrow> int \<Rightarrow> thrown + hotelOrder option" where
  "order_findFirst fl d gid hid =
     (if fl Order_findFirst then Inl (PrismaError Order_findFirst)
      else Inr (find (\<lambda>ord. order_guestId ord = gid \<and> order_hotelId ord = hid) (orders d)))"

section \<open>MFA passcode management\<close>

record verifyPasscodeResult =
  vp_success :: bool
  vp_adminId :: "int option"
  vp_hotelId :: "int option"
  vp_message :: string

record guestResult =
  fg_success :: bool
  fg_guestId :: "int option"
  fg_message :: string

text \<open>
  Each helper wraps its body in one \<^verbatim>\<open>try\<close> block whose \<^verbatim>\<open>catch\<close> logs and returns
  a fixed failure value: in the model every \<open>Inl\<close> of a repository call leads to that
  value. \<^verbatim>\<open>console.error\<close> has no effect on a result and is left out. No transaction
  spans the calls of a helper, so the writes made before a throw stay in the store.
\<close>

text \<open>
  \<open>verifyAdminPasscode\<close> reads the clock twice: \<open>now\<close> is \<^verbatim>\<open>new Date()\<close> in the
  lookup of the verification, \<open>now'\<close> is \<^verbatim>\<open>Date.now()\<close> in the clean-up that follows
  the update. The clean-up is awaited inside the same \<^verbatim>\<open>try\<close> block as the rest.
\<close>

definition verify_failed :: verifyPasscodeResult where
  "verify_failed = \<lparr>vp_success = False, vp_adminId = None, vp_hotelId = None,
                     vp_message = ''Failed to verify passcode''\<rparr>"

definition verify_not_found :: verifyPasscodeResult where
  "verify_not_found = \<lparr>vp_success = False, vp_adminId = None, vp_hotelId = None,
                        vp_message = ''Admin not found''\<rparr>"

definition verify_invalid :: verifyPasscodeResult where
  "verify_invalid = \<lparr>vp_success = False, vp_adminId = None, vp_hotelId = None,
                      vp_message = ''Invalid or expired passcode''\<rparr>"

definition verify_ok :: "admin \<Rightarrow> verifyPasscodeResult" where
  "verify_ok a = \<lparr>vp_success = True, vp_adminId = Some (admin_id a),
                   vp_hotelId = Some (admin_hotelId a),
                   vp_message = ''Passcode verified successfully''\<rparr>"

definition verifyAdminPasscode ::
  "faults \<Rightarrow> date \<Rightarrow> date \<Rightarrow> db \<Rightarrow> string \<Rightarrow> string \<Rightarrow> db \<times> verifyPasscodeResult" where
  "verifyAdminPasscode fl now now' d email passcode =
     (case admin_findUnique_email fl d email of
        Inl e \<Rightarrow> (d, verify_failed)
      | Inr None \<Rightarrow> (d, verify_not_found)
      | Inr (Some a) \<Rightarrow>
          (case adminVerification_findFirst fl d (admin_id a) passcode now of
             Inl e \<Rightarrow> (d, verify_failed)
           | Inr None \<Rightarrow> (d, verify_invalid)
           | Inr (Some verification) \<Rightarrow>
               (case adminVerification_update fl d (ver_id verification) of
                  Inl e \<Rightarrow> (d, verify_failed)
                | Inr d1 \<Rightarrow>
                    (case adminVerification_deleteMany fl d1 (admin_id a)
                            (now' - 24 * 60 * 60 * 1000) of
                       Inl e \<Rightarrow> (d1, verify_failed)
                     | Inr d2 \<Rightarrow> (d2, verify_ok a)))))"

definition findOrCreateGuest :: "faults \<Rightarrow> db \<Rightarrow> string \<Rightarrow> string \<Rightarrow> db \<times> guestResult" where
  "findOrCreateGuest fl d email name =
     (let failed = \<lparr>fg_success = False, fg_guestId = None,
                     fg_message = ''Failed to find or create guest''\<rparr>
      in case guest_findUnique_email fl d email of
           Inl e \<Rightarrow> (d, failed)
         | Inr None \<Rightarrow>
             (case guest_create fl d email name of
                Inl e \<Rightarrow> (d, failed)
              | Inr (d1, g) \<Rightarrow>
                  (d1, \<lparr>fg_success = True, fg_guestId = Some (guest_id g),
                        fg_message = ''Guest created successfully''\<rparr>))
         | Inr (Some g) \<Rightarrow>
             if name \<noteq> [] \<and> guest_name g \<noteq> name
             then (case guest_update fl d (guest_id g) name of
                     Inl e \<Rightarrow> (d, failed)
                   | Inr (d1, g1) \<Rightarrow>
                       (d1, \<lparr>fg_success = True, fg_guestId = Some (guest_id g1),
                             fg_message = ''Guest found''\<rparr>))
             else (d, \<lparr>fg_success = True, fg_guestId = Some (guest_id g),
                       fg_message = ''Guest found''\<rparr>))"

text \<open>\<open>getAdminById\<close> and \<open>getGuestById\<close> return \<^verbatim>\<open>null\<close> when the lookup throws.\<close>

definition getAdminById :: "faults \<Rightarrow> db \<Rightarrow> int \<Rightarrow> admin option" where
  "getAdminById fl d adminId =
     (case admin_findUnique_id fl d adminId of Inl e \<Rightarrow> None | Inr r \<Rightarrow> r)"

definition getGuestById :: "faults \<Rightarrow> db \<Rightarrow> int \<Rightarrow> guest option" where
  "getGuestById fl d guestId =
     (case guest_findUnique_id fl d guestId of Inl e \<Rightarrow> None | Inr r \<Rightarrow> r)"

text \<open>
  \<^verbatim>\<open>return admin?.hotelId === hotelId;\<close> is false for a missing admin, and
  \<^verbatim>\<open>return !!order;\<close> is false for a missing order; both \<^verbatim>\<open>catch\<close> blocks return false.
\<close>

definition verifyAdminHotelAccess :: "faults \<Rightarrow> db \<Rightarrow> int \<Rightarrow> int \<Rightarrow> bool" where
  "verifyAdminHotelAccess fl d adminId hotelId =
     (case admin_findUnique_id fl d adminId of
        Inl e \<Rightarrow> False
      | Inr None \<Rightarrow> False
      | Inr (Some a) \<Rightarrow> admin_hotelId a = hotelId)"

definition verifyGuestHotelAccess :: "faults \<Rightarrow> db \<Rightarrow> int \<Rightarrow> int \<Rightarrow> bool" where
  "verifyGuestHotelAccess fl d guestId hotelId =
     (case order_findFirst fl d guestId hotelId of
        Inl e \<Rightarrow> False
      | Inr None \<Rightarrow> False
      | Inr (Some ord) \<Rightarrow> True)"

section \<open>Verification attempts that overlap\<close>

text \<open>
  A request handler runs until its next \<^verbatim>\<open>await\<close>; another request may run between two
  awaited repository calls of \<open>verifyAdminPasscode\<close>. An attempt is therefore a sequence of
  four steps, one per repository call, and \<open>attempt_step\<close> performs the next one with the
  clock value it reads. The steps are the branches of \<open>verifyAdminPasscode\<close> in order.
\<close>

datatype attempt =
  Start string string
  | GotAdmin admin string
  | Found admin adminVerification
  | Marked admin
  | Done verifyPasscodeResult

definition attempt_step :: "faults \<Rightarrow> date \<Rightarrow> db \<Rightarrow> attempt \<Rightarrow> db \<times> attempt" where
  "attempt_step fl clock d t =
     (case t of
        Start email passcode \<Rightarrow>
          (case admin_findUnique_email fl d email of
             Inl e \<Rightarrow> (d, Done verify_failed)
           | Inr None \<Rightarrow> (d, Done verify_not_found)
           | Inr (Some a) \<Rightarrow> (d, GotAdmin a passcode))
      | GotAdmin a passcode \<Rightarrow>
          (case adminVerification_findFirst fl d (admin_id a) passcode clock of
             Inl e \<Rightarrow> (d, Done verify_failed)
           | Inr None \<Rightarrow> (d, Done verify_invalid)
           | Inr (Some verification) \<Rightarrow> (d, Found a verification))
      | Found a verification \<Rightarrow>
          (case adminVerification_update fl d (ver_id verification) of
             Inl e \<Rightarrow> (d, Done verify_failed)
           | Inr d1 \<Rightarrow> (d1, Marked a))
      | Marked a \<Rightarrow>
          (case adminVerification_deleteMany fl d (admin_id a) (clock - 24 * 60 * 60 * 1000) of
             Inl e \<Rightarrow> (d, Done verify_failed)
           | Inr d2 \<Rightarrow> (d2, Done (verify_ok a)))
      | Done r \<Rightarrow> (d, Done r))"

fun run_attempt :: "faults \<Rightarrow> date list \<Rightarrow> db \<times> attempt \<Rightarrow> db \<times> attempt" where
  "run_attempt fl [] s = s"
| "run_attempt fl (clock # clocks) (d, t) = run_attempt fl clocks (attempt_step fl clock d t)"

text \<open>Two attempts share the store; a schedule says whose step comes next and at what time.\<close>

datatype racer = First | Second

type_synonym race_state = "db \<times> attempt \<times> attempt"

fun race_step :: "faults \<Rightarrow> racer \<times> date \<Rightarrow> race_state \<Rightarrow> race_state" where
  "race_step fl (First, clock) (d, t1, t2) =
     (case attempt_step fl clock d t1 of (d', t1') \<Rightarrow> (d', t1', t2))"
| "race_step fl (Second, clock) (d, t1, t2) =
     (case attempt_step fl clock d t2 of (d', t2') \<Rightarrow> (d', t1, t2'))"

fun race :: "faults \<Rightarrow> (racer \<times> date) list \<Rightarrow> race_state \<Rightarrow> race_state" where
  "race fl [] s = s"
| "race fl (e # sched) s = race fl sched (race_step fl e s)"

definition succeeded :: "attempt \<Rightarrow> bool" where
  "succeeded t = (case t of Done r \<Rightarrow> vp_success r | _ \<Rightarrow> False)"

section \<open>Token verification\<close>

text \<open>
  The claims of a token as \<open>AuthPayload\<close> declares them; a payload with any other
  discriminant keeps only its \<^verbatim>\<open>type\<close>.
\<close>

datatype auth_payload =
  AdminAuthPayload int int string
  | GuestAuthPayload int string
  | OtherPayload string

text \<open>
  \<^verbatim>\<open>jwt.verify(token, secret, { issuer })\<close> belongs to the \<^verbatim>\<open>jsonwebtoken\<close> package: it
  returns the decoded payload or throws. The helpers are written over it as a parameter,
  together with the environment variable that may hold the signing secret.
\<close>

record jwt_env =
  jwt_verify :: "string \<Rightarrow> string \<Rightarrow> string \<Rightarrow> thrown + auth_payload"
  env_JWT_SECRET :: "string option"

definition JWT_SECRET :: "jwt_env \<Rightarrow> string" where
  "JWT_SECRET env =
     (case env_JWT_SECRET env of
        None \<Rightarrow> ''your-secret-key-change-in-production''
      | Some s \<Rightarrow> if s = [] then ''your-secret-key-change-in-production'' else s)"

definition verifyToken :: "jwt_env \<Rightarrow> string \<Rightarrow> auth_payload option" where
  "verifyToken env token =
     (case jwt_verify env token (JWT_SECRET env) ''zapmenu'' of
        Inr decoded \<Rightarrow> Some decoded
      | Inl error \<Rightarrow> None)"

definition extractTokenFromHeader :: "string option \<Rightarrow> string option" where
  "extractTokenFromHeader authHeader =
     (case authHeader of
        None \<Rightarrow> None
      | Some h \<Rightarrow>
          if h = [] then None
          else if take 7 h = ''Bearer '' then Some (drop 7 h)
          else Some h)"

section \<open>The token library\<close>

text \<open>
  Modelled from the spec: \<^verbatim>\<open>jwt.verify\<close> of the \<^verbatim>\<open>jsonwebtoken\<close> package, which the
  helpers import and whose code is not among the sources. The specification says of
  verification that it ``checks signature, issuer, and expiry; returns the embedded payload
  on success'' and fails on a token that is ``expired, bad signature, wrong issuer,
  malformed'', and it names a token that is not yet valid as a further failure. A token is
  a string; \<open>jws_decode\<close> reads its segments (\<open>None\<close> for a malformed string) and
  \<open>jws_sign\<close> computes the signature of the signed text under a secret. Both belong to
  the package and are parameters, as is the clock, in seconds. A time claim that the token
  does not carry is not checked. \<open>not_before\<close> and \<open>expired_at\<close> give the time claim
  that fails, if one does.
\<close>

record jws_token =
  jws_input :: string
  jws_signature :: string
  jws_payload :: auth_payload
  jws_iss :: "string option"
  jws_exp :: "int option"
  jws_nbf :: "int option"

record jwt_lib =
  jws_decode :: "string \<Rightarrow> jws_token option"
  jws_sign :: "string \<Rightarrow> string \<Rightarrow> string"
  jwt_clock :: int

definition not_before :: "jwt_lib \<Rightarrow> jws_token \<Rightarrow> int option" where
  "not_before lib t =
     (case jws_nbf t of
        None \<Rightarrow> None
      | Some n \<Rightarrow> if jwt_clock lib < n then Some n else None)"

definition expired_at :: "jwt_lib \<Rightarrow> jws_token \<Rightarrow> int option" where
  "expired_at lib t =
     (case jws_exp t of
        None \<Rightarrow> None
      | Some x \<Rightarrow> if x \<le> jwt_clock lib then Some x else None)"

definition jsonwebtoken_verify :: "jwt_lib \<Rightarrow> string \<Rightarrow> string \<Rightarrow> string \<Rightarrow> thrown + auth_payload" where
  "jsonwebtoken_verify lib token secret issuer =
     (if token = [] then Inl (JsonWebTokenError ''jwt must be provided'')
      else
        case jws_decode lib token of
          None \<Rightarrow> Inl (JsonWebTokenError ''jwt malformed'')
        | Some t \<Rightarrow>
            if jws_signature t \<noteq> jws_sign lib secret (jws_input t)
            then Inl (JsonWebTokenError ''invalid signature'')
            else
              case not_before lib t of
                Some n \<Rightarrow> Inl (NotBeforeError (1000 * n))
              | None \<Rightarrow>
                  (case expired_at lib t of
                     Some x \<Rightarrow> Inl (TokenExpiredError (1000 * x))
                   | None \<Rightarrow>
                       if jws_iss t \<noteq> Some issuer
                       then Inl (JsonWebTokenError (''jwt issuer invalid. expected: '' @ issuer))
                       else Inr (jws_payload t)))"

text \<open>The helpers' environment with this library and a configured secret.\<close>

definition library_env :: "jwt_lib \<Rightarrow> string option \<Rightarrow> jwt_env" where
  "library_env lib secret = \<lparr>jwt_verify = jsonwebtoken_verify lib, env_JWT_SECRET = secret\<rparr>"

section \<open>Request values\<close>

text \<open>
  A string is the list of the UTF-8 bytes of the JavaScript string. \<^verbatim>\<open>parseInt(x, 10)\<close>
  converts \<open>x\<close> to a string, skips leading white space, reads an optional sign and then the
  longest run of decimal digits; without a digit the result is \<^verbatim>\<open>NaN\<close>. White space is
  the white space and the line terminators of ECMAScript: tab, line feed, vertical tab,
  form feed, carriage return, space, U+00A0, U+1680, U+2000 to U+200A, U+2028, U+2029,
  U+202F, U+205F, U+3000 and U+FEFF.

  The result is a Number. An integer below \<open>2 ^ 53\<close> is represented exactly and is
  \<open>Num\<close>; from there on the digits are rounded to a double (or to \<^verbatim>\<open>Infinity\<close>), and
  \<open>Huge\<close> stands for such a result: a Number of magnitude \<open>2 ^ 53\<close> or more, whose
  exact value the model leaves open.
\<close>

datatype js_number = NaN | Num int | Huge

definition is_space :: "char \<Rightarrow> bool" where
  "is_space c = ((of_char c :: nat) = 32 \<or> (9 \<le> (of_char c :: nat) \<and> (of_char c :: nat) \<le> 13))"

definition is_space2 :: "char \<Rightarrow> char \<Rightarrow> bool" where
  "is_space2 a b = ((of_char a :: nat) = 194 \<and> (of_char b :: nat) = 160)"

definition is_space3 :: "char \<Rightarrow> char \<Rightarrow> char \<Rightarrow> bool" where
  "is_space3 a b c =
     (let x = (of_char a :: nat); y = (of_char b :: nat); z = (of_char c :: nat)
      in (x = 225 \<and> y = 154 \<and> z = 128)
         \<or> (x = 226 \<and> y = 128 \<and> (128 \<le> z \<and> z \<le> 138 \<or> z = 168 \<or> z = 169 \<or> z = 175))
         \<or> (x = 226 \<and> y = 129 \<and> z = 159)
         \<or> (x = 227 \<and> y = 128 \<and> z = 128)
         \<or> (x = 239 \<and> y = 187 \<and> z = 191))"

fun skip_space :: "string \<Rightarrow> string" where
  "skip_space (a # b # c # s) =
     (if is_space a then skip_space (b # c # s)
      else if is_space2 a b then skip_space (c # s)
      else if is_space3 a b c then skip_space s
      else a # b # c # s)"
| "skip_space [a, b] =
     (if is_space a then skip_space [b] else if is_space2 a b then [] else [a, b])"
| "skip_space [a] = (if is_space a then [] else [a])"
| "skip_space [] = []"

definition parseInt :: "string \<Rightarrow> js_number" where
  "parseInt str =
     (let t = skip_space str;
          negative = (case t of [] \<Rightarrow> False | c # r \<Rightarrow> c = CHR ''-'');
          u = (case t of [] \<Rightarrow> [] | c # r \<Rightarrow> if c = CHR ''-'' \<or> c = CHR ''+'' then r else t);
          ds = takeWhile is_digit u
      in if ds = [] then NaN
         else if decimal_value ds < 9007199254740992
         then Num (if negative then - int (decimal_value ds) else int (decimal_value ds))
         else Huge)"

text \<open>
  A value found under \<^verbatim>\<open>hotelId\<close> in the body or the query can be any JavaScript value:
  a string, a number with or without a fraction, a boolean, \<^verbatim>\<open>null\<close>, an array, an
  object. The middleware observes it in two ways only, and the value is modelled by these
  two observations: whether it is truthy, and the string \<^verbatim>\<open>parseInt\<close> converts it to
  (the conversion of an object can throw). A string \<open>s\<close> is truthy unless empty and
  converts to itself; the number 8 is truthy and converts to \<^verbatim>\<open>8\<close>; the number 0 is
  falsy; \<^verbatim>\<open>undefined\<close> and \<^verbatim>\<open>null\<close> are falsy.
\<close>

record js_value =
  truthy :: bool
  as_string :: "thrown + string"

definition js_undefined :: js_value where
  "js_undefined = \<lparr>truthy = False, as_string = Inr ''undefined''\<rparr>"


section \<open>Authentication and authorization middleware\<close>

record adminPrincipal =
  ap_adminId :: int
  ap_hotelId :: int
  ap_email :: string
  ap_id :: int
  ap_name :: string
  ap_phone :: string

record guestPrincipal =
  gp_guestId :: int
  gp_email :: string
  gp_id :: int
  gp_name :: string

text \<open>
  The request as the middleware sees it: the authorization header, the three places a hotel
  id may come from, and the fields the middleware attaches. The route parameter is a string
  or absent. \<open>body_hotelId\<close> is \<open>None\<close> when the request has no body
  (\<^verbatim>\<open>req.body\<close> is \<^verbatim>\<open>undefined\<close>, and reading a property of it throws), and otherwise
  the value of the body's \<^verbatim>\<open>hotelId\<close> (\<^verbatim>\<open>undefined\<close> when the body has none). The
  query is always an object. A middleware either calls \<^verbatim>\<open>next()\<close> or answers with a
  status and an error message; it returns the request as it leaves it.
\<close>

record request =
  authorization :: "string option"
  params_hotelId :: "string option"
  body_hotelId :: "js_value option"
  query_hotelId :: js_value
  req_admin :: "adminPrincipal option"
  req_guest :: "guestPrincipal option"
  req_hotelId :: "int option"

datatype response = Next | Json nat string

definition authenticateAdmin :: "jwt_env \<Rightarrow> faults \<Rightarrow> db \<Rightarrow> request \<Rightarrow> request \<times> response" where
  "authenticateAdmin env fl d req =
     (case extractTokenFromHeader (authorization req) of
        None \<Rightarrow> (req, Json 401 ''Authentication required'')
      | Some token \<Rightarrow>
          if token = [] then (req, Json 401 ''Authentication required'')
          else
            (case verifyToken env token of
               Some (AdminAuthPayload adminId hotelId email) \<Rightarrow>
                 (case getAdminById fl d adminId of
                    None \<Rightarrow> (req, Json 401 ''Admin not found'')
                  | Some a \<Rightarrow>
                      (req\<lparr>req_admin :=
                             Some \<lparr>ap_adminId = adminId, ap_hotelId = hotelId, ap_email = email,
                                   ap_id = admin_id a, ap_name = admin_name a,
                                   ap_phone = admin_phone a\<rparr>,
                           req_hotelId := Some hotelId\<rparr>, Next))
             | _ \<Rightarrow> (req, Json 401 ''Invalid token or not an admin token'')))"

definition authenticateGuest :: "jwt_env \<Rightarrow> faults \<Rightarrow> db \<Rightarrow> request \<Rightarrow> request \<times> response" where
  "authenticateGuest env fl d req =
     (case extractTokenFromHeader (authorization req) of
        None \<Rightarrow> (req, Json 401 ''Authentication required'')
      | Some token \<Rightarrow>
          if token = [] then (req, Json 401 ''Authentication required'')
          else
            (case verifyToken env token of
               Some (GuestAuthPayload guestId email) \<Rightarrow>
                 (case getGuestById fl d guestId of
                    None \<Rightarrow> (req, Json 401 ''Guest not found'')
                  | Some g \<Rightarrow>
                      (req\<lparr>req_guest :=
                             Some \<lparr>gp_guestId = guestId, gp_email = email,
                                   gp_id = guest_id g, gp_name = guest_name g\<rparr>\<rparr>, Next))
             | _ \<Rightarrow> (req, Json 401 ''Invalid token or not a guest token'')))"

text \<open>
  The hotel id of a request, as both authorization middlewares compute it:
  \<^verbatim>\<open>req.params.hotelId ? parseInt(req.params.hotelId, 10)
    : req.body.hotelId ? parseInt(req.body.hotelId, 10)
    : req.query.hotelId ? parseInt(req.query.hotelId as string, 10)
    : null\<close>
  \<open>Inr None\<close> is \<^verbatim>\<open>null\<close>; \<open>Inl\<close> is a value thrown on the way.
\<close>

definition present :: "string option \<Rightarrow> bool" where
  "present s = (case s of None \<Rightarrow> False | Some str \<Rightarrow> str \<noteq> [])"

definition text_of :: "string option \<Rightarrow> string" where
  "text_of s = (case s of None \<Rightarrow> [] | Some str \<Rightarrow> str)"

definition parse_value :: "js_value \<Rightarrow> thrown + js_number option" where
  "parse_value v = (case as_string v of Inl e \<Rightarrow> Inl e | Inr str \<Rightarrow> Inr (Some (parseInt str)))"

definition resolveHotelId :: "request \<Rightarrow> thrown + js_number option" where
  "resolveHotelId req =
     (if present (params_hotelId req) then Inr (Some (parseInt (text_of (params_hotelId req))))
      else
        case body_hotelId req of
          None \<Rightarrow> Inl (TypeError ''Cannot read properties of undefined (reading hotelId)'')
        | Some b \<Rightarrow>
            if truthy b then parse_value b
            else if truthy (query_hotelId req) then parse_value (query_hotelId req)
            else Inr None)"

text \<open>\<^verbatim>\<open>null\<close>, \<^verbatim>\<open>NaN\<close> and zero are falsy; every other Number is truthy.\<close>

definition falsy_number :: "js_number option \<Rightarrow> bool" where
  "falsy_number h =
     (case h of None \<Rightarrow> True | Some NaN \<Rightarrow> True | Some (Num n) \<Rightarrow> n = 0 | Some Huge \<Rightarrow> False)"

text \<open>
  Both middlewares run in a \<^verbatim>\<open>try\<close> block whose \<^verbatim>\<open>catch\<close> answers 500. The access
  predicates are called with the Number found. The keys of the store are the 32-bit
  integers of the schema, so a Number of \<open>2 ^ 53\<close> or more is the hotel of no admin and
  of no order (the lookup finds nothing or rejects the value): the predicate is false.
\<close>

definition authorizeAdminHotel :: "faults \<Rightarrow> db \<Rightarrow> request \<Rightarrow> request \<times> response" where
  "authorizeAdminHotel fl d req =
     (case req_admin req of
        None \<Rightarrow> (req, Json 401 ''Authentication required'')
      | Some adm \<Rightarrow>
          (case resolveHotelId req of
             Inl e \<Rightarrow> (req, Json 500 ''Authorization failed'')
           | Inr hotelId \<Rightarrow>
               let targetHotelId = (if falsy_number hotelId then Some (Num (ap_hotelId adm))
                                    else hotelId)
               in case targetHotelId of
                    Some (Num n) \<Rightarrow>
                      if \<not> verifyAdminHotelAccess fl d (ap_adminId adm) n
                      then (req, Json 403 ''Access denied to this hotel'')
                      else (req\<lparr>req_hotelId := Some n\<rparr>, Next)
                  | _ \<Rightarrow> (req, Json 403 ''Access denied to this hotel'')))"

definition authorizeGuestHotel :: "faults \<Rightarrow> db \<Rightarrow> request \<Rightarrow> request \<times> response" where
  "authorizeGuestHotel fl d req =
     (case req_guest req of
        None \<Rightarrow> (req, Json 401 ''Authentication required'')
      | Some gst \<Rightarrow>
          (case resolveHotelId req of
             Inl e \<Rightarrow> (req, Json 500 ''Authorization failed'')
           | Inr hotelId \<Rightarrow>
               if falsy_number hotelId then (req, Json 400 ''Hotel ID required'')
               else
                 case hotelId of
                   Some (Num n) \<Rightarrow>
                     if \<not> verifyGuestHotelAccess fl d (gp_guestId gst) n
                     then (req, Json 403 ''Access denied to this hotel'')
                     else (req\<lparr>req_hotelId := Some n\<rparr>, Next)
                 | _ \<Rightarrow> (req, Json 403 ''Access denied to this hotel'')))"

section \<open>Repeated guest logins\<close>

text \<open>
  The guest login route calls \<open>findOrCreateGuest\<close> once per request; \<open>guestLogins\<close> is
  a run of such calls for one email, one name per call, against the store the previous call
  left.
\<close>

fun guestLogins :: "faults \<Rightarrow> db \<Rightarrow> string \<Rightarrow> string list \<Rightarrow> db \<times> guestResult list" where
  "guestLogins fl d email [] = (d, [])"
| "guestLogins fl d email (name # names) =
     (case findOrCreateGuest fl d email name of
        (d1, r) \<Rightarrow>
          (case guestLogins fl d1 email names of (d2, rs) \<Rightarrow> (d2, r # rs)))"

section \<open>Example data\<close>

text \<open>
  The scenario of the specification: admin \<^verbatim>\<open>a@hotel.com\<close> with id 1 at hotel 7, holding
  one unused passcode that expires ten minutes after time 0.
\<close>

definition example_admin :: admin where
  "example_admin = \<lparr>admin_id = 1, admin_name = ''Ann'', admin_email = ''a@hotel.com'',
                      admin_phone = ''555'', admin_hotelId = 7\<rparr>"

definition example_verification :: adminVerification where
  "example_verification = \<lparr>ver_id = 1, ver_adminId = 1, ver_passcode = ''123456'',
                             ver_expiresAt = 600000, ver_used = False, ver_createdAt = 0\<rparr>"

definition example_db :: db where
  "example_db = \<lparr>admins = [example_admin], adminVerifications = [example_verification],
                   guests = [], orders = []\<rparr>"

text \<open>The same store after guest 3 has placed an order at hotel 7.\<close>

definition example_orders :: db where
  "example_orders =
     example_db\<lparr>orders := [\<lparr>order_id = 1, order_guestId = 3, order_hotelId = 7\<rparr>]\<rparr>"

text \<open>
  A stand-in for the token library with a handful of tokens: two admin tokens, two guest
  tokens, an expired token; everything else is malformed. The secret and the issuer must be
  the ones the tokens were minted with.
\<close>

definition example_jwt_verify :: "string \<Rightarrow> string \<Rightarrow> string \<Rightarrow> thrown + auth_payload" where
  "example_jwt_verify token secret issuer =
     (if token = ''expired'' then Inl (TokenExpiredError 100)
      else if secret \<noteq> ''s3cret'' then Inl (JsonWebTokenError ''invalid signature'')
      else if issuer \<noteq> ''zapmenu'' then Inl (JsonWebTokenError ''jwt issuer invalid'')
      else if token = ''admin-1'' then Inr (AdminAuthPayload 1 7 ''a@hotel.com'')
      else if token = ''admin-2'' then Inr (AdminAuthPayload 2 7 ''b@hotel.com'')
      else if token = ''guest-3'' then Inr (GuestAuthPayload 3 ''g@x.com'')
      else if token = ''guest-4'' then Inr (GuestAuthPayload 4 ''h@x.com'')
      else Inl (JsonWebTokenError ''jwt malformed''))"

definition example_env :: jwt_env where
  "example_env = \<lparr>jwt_verify = example_jwt_verify, env_JWT_SECRET = Some ''s3cret''\<rparr>"

text \<open>
  A request with an empty body and an empty query; the numbers 8 and 0 as they may stand
  in a body.
\<close>

definition example_request :: request where
  "example_request = \<lparr>authorization = None, params_hotelId = None,
                        body_hotelId = Some js_undefined, query_hotelId = js_undefined,
                        req_admin = None, req_guest = None, req_hotelId = None\<rparr>"



text \<open>
  A stand-in for the codec and the signature of the token library: the signature of a text
  under a secret is the two joined by a slash, and five tokens decode. The first is an admin
  token signed with \<^verbatim>\<open>s3cret\<close>, issued by \<^verbatim>\<open>zapmenu\<close>, valid from 1000 to 2000; the
  others differ from it in the signature, the expiry, the start of validity and the issuer.
\<close>

definition example_token :: jws_token where
  "example_token = \<lparr>jws_input = ''h.admin1'', jws_signature = ''s3cret/h.admin1'',
                      jws_payload = AdminAuthPayload 1 7 ''a@hotel.com'',
                      jws_iss = Some ''zapmenu'', jws_exp = Some 2000, jws_nbf = Some 1000\<rparr>"

definition example_decode :: "string \<Rightarrow> jws_token option" where
  "example_decode token =
     (if token = ''h.admin1.good'' then Some example_token
      else if token = ''h.admin1.forged''
      then Some (example_token\<lparr>jws_signature := ''guess/h.admin1''\<rparr>)
      else if token = ''h.old.good''
      then Some (example_token\<lparr>jws_input := ''h.old'', jws_signature := ''s3cret/h.old'',
                                jws_exp := Some 1400\<rparr>)
      else if token = ''h.early.good''
      then Some (example_token\<lparr>jws_input := ''h.early'', jws_signature := ''s3cret/h.early'',
                                jws_nbf := Some 1600\<rparr>)
      else if token = ''h.other.good''
      then Some (example_token\<lparr>jws_input := ''h.other'', jws_signature := ''s3cret/h.other'',
                                jws_iss := Some ''someone''\<rparr>)
      else None)"

definition example_lib :: jwt_lib where
  "example_lib = \<lparr>jws_decode = example_decode,
                    jws_sign = (\<lambda>secret input. secret @ ''/'' @ input),
                    jwt_clock = 1500\<rparr>"



section \<open>Properties of passcode generation\<close>

lemma digit_value_digit_char: "d < 10 \<Longrightarrow> digit_value (digit_char d) = d"
  by (simp add: digit_value_def digit_char_def)

lemma is_digit_digit_char: "d < 10 \<Longrightarrow> is_digit (digit_char d)"
  by (simp add: is_digit_def digit_char_def)

lemma decimal_value_snoc: "decimal_value (s @ [c]) = 10 * decimal_value s + digit_value c"
  by (simp add: decimal_value_def)

lemma decimal_value_decimal: "decimal_value (decimal n) = n"
proof (induction n rule: decimal.induct)
  case (1 n)
  show ?case
  proof (cases "n < 10")
    case True
    then show ?thesis
      by (simp add: decimal.simps [of n] decimal_value_def digit_value_digit_char)
  next
    case False
    with 1 have "decimal_value (decimal (n div 10)) = n div 10" by simp
    with False show ?thesis
      by (simp add: decimal.simps [of n] decimal_value_snoc digit_value_digit_char)
  qed
qed

lemma decimal_all_digits: "list_all is_digit (decimal n)"
proof (induction n rule: decimal.induct)
  case (1 n)
  show ?case
  proof (cases "n < 10")
    case True
    then show ?thesis by (simp add: decimal.simps [of n] is_digit_digit_char)
  next
    case False
    with 1 have "list_all is_digit (decimal (n div 10))" by simp
    with False show ?thesis by (simp add: decimal.simps [of n] is_digit_digit_char)
  qed
qed

lemma length_decimal: "10 ^ k \<le> n \<Longrightarrow> n < 10 ^ Suc k \<Longrightarrow> length (decimal n) = Suc k"
proof (induction k arbitrary: n)
  case 0
  then show ?case by (simp add: decimal.simps [of n])
next
  case (Suc k)
  have "(10::nat) \<le> 10 ^ Suc k" by simp
  with Suc.prems have ge: "\<not> n < 10" by linarith
  from Suc.prems have "10 ^ k \<le> n div 10" "n div 10 < 10 ^ Suc k"
    by (simp_all add: less_mult_imp_div_less div_le_mono  mult.commute)
  with Suc.IH have "length (decimal (n div 10)) = Suc k" by blast
  with ge show ?case by (simp add: decimal.simps [of n])
qed

lemma randomInt_passcode_bounds:
  "100000 \<le> randomInt 100000 999999 draw \<and> randomInt 100000 999999 draw \<le> 999998"
proof -
  have "draw mod 899999 < 899999" by simp
  then show ?thesis by (simp add: randomInt_def)
qed

lemma generatePasscode_decimal:
  "generatePasscode draw = decimal (nat (randomInt 100000 999999 draw))"
  using randomInt_passcode_bounds [of draw] by (simp add: generatePasscode_def toString_def)

lemma generatePasscode_value:
  "100000 \<le> decimal_value (generatePasscode draw) \<and> decimal_value (generatePasscode draw) \<le> 999998"
proof -
  from randomInt_passcode_bounds [of draw]
  have "100000 \<le> nat (randomInt 100000 999999 draw) \<and> nat (randomInt 100000 999999 draw) \<le> 999998"
    by arith
  then show ?thesis by (simp add: generatePasscode_decimal decimal_value_decimal)
qed

lemma generatePasscode_six_digits:
  "length (generatePasscode draw) = 6 \<and> list_all is_digit (generatePasscode draw)"
proof -
  let ?n = "nat (randomInt 100000 999999 draw)"
  from randomInt_passcode_bounds [of draw] have "100000 \<le> ?n" "?n < 1000000" by arith+
  then have "10 ^ 5 \<le> ?n" "?n < 10 ^ Suc 5" by simp_all
  then have "length (decimal ?n) = Suc 5" by (rule length_decimal)
  then show ?thesis by (simp add: generatePasscode_decimal decimal_all_digits)
qed

lemma generatePasscode_reaches:
  assumes "100000 \<le> n" and "n \<le> 999998"
  shows "generatePasscode (nat (n - 100000)) = toString n"
proof -
  from assms have "nat (n - 100000) mod 899999 = nat (n - 100000)" by simp
  with assms show ?thesis by (simp add: generatePasscode_def randomInt_def)
qed

text \<open>
  C2: every passcode is a string of six decimal digits with a value from 100000 on
  (\<open>generatePasscode_six_digits\<close>, \<open>generatePasscode_value\<close>), and every value up to
  999998 is drawn (\<open>generatePasscode_reaches\<close>). The upper bound handed to
  \<^verbatim>\<open>crypto.randomInt\<close> is exclusive, so the passcode 999999 is never generated: the
  range is not the inclusive range up to 999999.
\<close>

theorem generatePasscode_never_999999: "generatePasscode draw \<noteq> ''999999''"
proof
  assume "generatePasscode draw = ''999999''"
  then have "decimal_value (generatePasscode draw) = decimal_value ''999999''" by simp
  also have "decimal_value ''999999'' = 999999"
    by (simp add: decimal_value_def digit_value_def)
  finally show False using generatePasscode_value [of draw] by simp
qed

section \<open>Properties of passcode verification\<close>

lemma no_faults_apply: "no_faults c = False"
  by (simp add: no_faults_def)

lemma latest_single: "latest [v] = Some v"
  by (simp add: latest_def)

lemma foldl_pick_mem:
  "foldl (\<lambda>best r. if ver_createdAt best < ver_createdAt r then r else best) b xs \<in> insert b (set xs)"
  by (induction xs arbitrary: b) auto

lemma latest_mem: "latest vs = Some v \<Longrightarrow> v \<in> set vs"
proof (cases vs)
  case Nil
  assume "latest vs = Some v"
  with Nil show ?thesis by (simp add: latest_def)
next
  case (Cons x rest)
  assume "latest vs = Some v"
  with Cons have "v = foldl (\<lambda>best r. if ver_createdAt best < ver_createdAt r then r else best) x rest"
    by (simp add: latest_def)
  with foldl_pick_mem [of x rest] Cons show ?thesis by simp
qed

lemma latest_matches:
  assumes "latest (filter (verification_matches aid p now) vs) = Some v"
  shows "v \<in> set vs \<and> verification_matches aid p now v"
  using latest_mem [OF assms] by simp

lemma matches_earlier:
  "now \<le> now2 \<Longrightarrow> verification_matches aid p now2 x \<Longrightarrow> verification_matches aid p now x"
  by (simp add: verification_matches_def)

lemma marked_never_matches:
  "ver_id x = vid \<Longrightarrow> \<not> verification_matches aid p c (mark_used vid x)"
  by (simp add: verification_matches_def mark_used_def)

lemma no_match_after_mark:
  assumes single: "filter (verification_matches aid p now) vs = [v]"
    and later: "now \<le> now2"
  shows "filter (verification_matches aid p now2) (map (mark_used (ver_id v)) vs) = []"
proof -
  have "\<not> verification_matches aid p now2 (mark_used (ver_id v) x)" if "x \<in> set vs" for x
  proof (cases "ver_id x = ver_id v")
    case True
    then show ?thesis by (rule marked_never_matches)
  next
    case False
    show ?thesis
    proof
      assume "verification_matches aid p now2 (mark_used (ver_id v) x)"
      with False have "verification_matches aid p now2 x" by (simp add: mark_used_def)
      with later have "verification_matches aid p now x" by (rule matches_earlier)
      with that have "x \<in> set (filter (verification_matches aid p now) vs)" by simp
      with single have "x = v" by simp
      with False show False by simp
    qed
  qed
  then show ?thesis by (simp add: filter_empty_conv)
qed

lemma single_mem: "filter P xs = [v] \<Longrightarrow> v \<in> set xs \<and> P v"
proof -
  assume "filter P xs = [v]"
  then have "v \<in> set (filter P xs)" by simp
  then show ?thesis by simp
qed

lemma update_found:
  assumes "v \<in> set (adminVerifications d)" and "\<not> fl AdminVerification_update"
  shows "adminVerification_update fl d (ver_id v)
           = Inr (d\<lparr>adminVerifications := map (mark_used (ver_id v)) (adminVerifications d)\<rparr>)"
  using assms by (auto simp: adminVerification_update_def list_ex_iff)

lemma marked_kept:
  assumes "v \<in> set vs" and "cutoff \<le> ver_expiresAt v"
  shows "v\<lparr>ver_used := True\<rparr> \<in> set (filter (\<lambda>x. \<not> stale aid cutoff x) (map (mark_used (ver_id v)) vs))"
proof -
  have "mark_used (ver_id v) v = v\<lparr>ver_used := True\<rparr>" by (simp add: mark_used_def)
  with assms(1) have "v\<lparr>ver_used := True\<rparr> \<in> set (map (mark_used (ver_id v)) vs)"
    by (metis imageI set_map)
  moreover from assms(2) have "\<not> stale aid cutoff (v\<lparr>ver_used := True\<rparr>)"
    by (simp add: stale_def)
  ultimately show ?thesis by simp
qed

text \<open>The first call and the store it leaves; a call that finds no matching row.\<close>

lemma verify_first_call:
  assumes admin: "find (\<lambda>a. admin_email a = email) (admins d) = Some a"
    and single: "filter (verification_matches (admin_id a) passcode now) (adminVerifications d) = [v]"
  shows "verifyAdminPasscode no_faults now now' d email passcode =
           (d\<lparr>adminVerifications :=
                filter (\<lambda>x. \<not> stale (admin_id a) (now' - 24 * 60 * 60 * 1000) x)
                  (map (mark_used (ver_id v)) (adminVerifications d))\<rparr>, verify_ok a)"
proof -
  from single have mem: "v \<in> set (adminVerifications d)" by (rule single_mem [THEN conjunct1])
  have upd: "adminVerification_update no_faults d (ver_id v)
           = Inr (d\<lparr>adminVerifications := map (mark_used (ver_id v)) (adminVerifications d)\<rparr>)"
    using mem by (rule update_found) (simp add: no_faults_apply)
  show ?thesis
    by (simp add: verifyAdminPasscode_def admin_findUnique_email_def admin
        adminVerification_findFirst_def single latest_single upd
        adminVerification_deleteMany_def no_faults_apply)
qed

lemma verify_no_match:
  assumes admin: "find (\<lambda>a. admin_email a = email) (admins d) = Some a"
    and none: "filter (verification_matches (admin_id a) passcode now) (adminVerifications d) = []"
  shows "verifyAdminPasscode no_faults now now' d email passcode = (d, verify_invalid)"
  by (simp add: verifyAdminPasscode_def admin_findUnique_email_def admin
      adminVerification_findFirst_def none latest_def no_faults_apply)

text \<open>
  C1: when the admin of \<open>email\<close> holds exactly one unused, unexpired record with the
  passcode, and the repository answers, the first call returns success with the admin's id
  and hotel id and leaves that record marked used (the clean-up, run within 24 hours of the
  lookup, keeps it); any later call with the same email and passcode fails with
  ``Invalid or expired passcode'' and changes nothing.
\<close>

theorem verifyAdminPasscode_succeeds_once:
  assumes admin: "find (\<lambda>a. admin_email a = email) (admins d) = Some a"
    and single: "filter (verification_matches (admin_id a) passcode now) (adminVerifications d) = [v]"
    and clean: "now' \<le> now + 24 * 60 * 60 * 1000"
    and later: "now \<le> now2"
  shows "case verifyAdminPasscode no_faults now now' d email passcode of
           (d1, r1) \<Rightarrow>
             r1 = \<lparr>vp_success = True, vp_adminId = Some (admin_id a),
                   vp_hotelId = Some (admin_hotelId a),
                   vp_message = ''Passcode verified successfully''\<rparr>
             \<and> v\<lparr>ver_used := True\<rparr> \<in> set (adminVerifications d1)
             \<and> verifyAdminPasscode no_faults now2 now2' d1 email passcode =
                 (d1, \<lparr>vp_success = False, vp_adminId = None, vp_hotelId = None,
                       vp_message = ''Invalid or expired passcode''\<rparr>)"
proof -
  let ?cut = "now' - 24 * 60 * 60 * 1000"
  let ?vs1 = "filter (\<lambda>x. \<not> stale (admin_id a) ?cut x)
                (map (mark_used (ver_id v)) (adminVerifications d))"
  let ?d1 = "d\<lparr>adminVerifications := ?vs1\<rparr>"
  have first: "verifyAdminPasscode no_faults now now' d email passcode = (?d1, verify_ok a)"
    using admin single by (rule verify_first_call)
  from single have mem: "v \<in> set (adminVerifications d)"
    by (rule single_mem [THEN conjunct1])
  from single have valid: "verification_matches (admin_id a) passcode now v"
    by (rule single_mem [THEN conjunct2])
  from valid clean have "?cut \<le> ver_expiresAt v" by (simp add: verification_matches_def)
  with mem have kept: "v\<lparr>ver_used := True\<rparr> \<in> set ?vs1" by (rule marked_kept)
  have "filter (verification_matches (admin_id a) passcode now2)
          (map (mark_used (ver_id v)) (adminVerifications d)) = []"
    using single later by (rule no_match_after_mark)
  then have none: "filter (verification_matches (admin_id a) passcode now2) (adminVerifications ?d1) = []"
    by (simp add: filter_empty_conv)
  have admin1: "find (\<lambda>a. admin_email a = email) (admins ?d1) = Some a"
    using admin by simp
  have second: "verifyAdminPasscode no_faults now2 now2' ?d1 email passcode = (?d1, verify_invalid)"
    using admin1 none by (rule verify_no_match)
  from first kept second show ?thesis
    by (simp add: verify_ok_def verify_invalid_def)
qed


theorem verifyAdminPasscode_succeeds_once_witness:
  "find (\<lambda>a. admin_email a = ''a@hotel.com'') (admins example_db) = Some example_admin
   \<and> filter (verification_matches (admin_id example_admin) ''123456'' 5)
         (adminVerifications example_db) = [example_verification]
   \<and> (6::int) \<le> 5 + 24 * 60 * 60 * 1000
   \<and> (5::int) \<le> 9
   \<and> (case verifyAdminPasscode no_faults 5 6 example_db ''a@hotel.com'' ''123456'' of
         (d1, r1) \<Rightarrow>
           r1 = \<lparr>vp_success = True, vp_adminId = Some (admin_id example_admin),
                 vp_hotelId = Some (admin_hotelId example_admin),
                 vp_message = ''Passcode verified successfully''\<rparr>
           \<and> example_verification\<lparr>ver_used := True\<rparr> \<in> set (adminVerifications d1)
           \<and> verifyAdminPasscode no_faults 9 10 d1 ''a@hotel.com'' ''123456'' =
               (d1, \<lparr>vp_success = False, vp_adminId = None, vp_hotelId = None,
                     vp_message = ''Invalid or expired passcode''\<rparr>))"
proof -
  have h1: "find (\<lambda>a. admin_email a = ''a@hotel.com'') (admins example_db) = Some example_admin"
    by (simp add: example_db_def example_admin_def)
  have h2: "filter (verification_matches (admin_id example_admin) ''123456'' 5)
              (adminVerifications example_db) = [example_verification]"
    by (simp add: example_db_def example_admin_def example_verification_def
        verification_matches_def)
  have h3: "(6::int) \<le> 5 + 24 * 60 * 60 * 1000" by simp
  have h4: "(5::int) \<le> 9" by simp
  from verifyAdminPasscode_succeeds_once [OF h1 h2 h3 h4, of 10] h1 h2 show ?thesis
    by simp
qed

text \<open>
  C3: the clean-up is awaited inside the \<^verbatim>\<open>try\<close> block of the whole verification.
  When the lookup finds a valid record and the update goes through but the clean-up
  throws, the \<^verbatim>\<open>catch\<close> block answers \<open>success = False\<close> with ``Failed to verify
  passcode'', although the record stays marked used.
\<close>

theorem verifyAdminPasscode_cleanup_failure:
  assumes admin: "find (\<lambda>a. admin_email a = email) (admins d) = Some a"
    and found: "latest (filter (verification_matches (admin_id a) passcode now)
                  (adminVerifications d)) = Some v"
    and answers: "\<not> fl Admin_findUnique" "\<not> fl AdminVerification_findFirst"
      "\<not> fl AdminVerification_update"
    and cleanup_throws: "fl AdminVerification_deleteMany"
  shows "case verifyAdminPasscode fl now now' d email passcode of
           (d1, r1) \<Rightarrow>
             r1 = \<lparr>vp_success = False, vp_adminId = None, vp_hotelId = None,
                   vp_message = ''Failed to verify passcode''\<rparr>
             \<and> v\<lparr>ver_used := True\<rparr> \<in> set (adminVerifications d1)"
proof -
  from found have mem: "v \<in> set (adminVerifications d)"
    by (rule latest_matches [THEN conjunct1])
  then have upd: "adminVerification_update fl d (ver_id v)
           = Inr (d\<lparr>adminVerifications := map (mark_used (ver_id v)) (adminVerifications d)\<rparr>)"
    using answers(3) by (rule update_found)
  have "mark_used (ver_id v) v = v\<lparr>ver_used := True\<rparr>" by (simp add: mark_used_def)
  with mem have kept: "v\<lparr>ver_used := True\<rparr> \<in> set (map (mark_used (ver_id v)) (adminVerifications d))"
    by (metis imageI set_map)
  have "verifyAdminPasscode fl now now' d email passcode =
          (d\<lparr>adminVerifications := map (mark_used (ver_id v)) (adminVerifications d)\<rparr>, verify_failed)"
    by (simp add: verifyAdminPasscode_def admin_findUnique_email_def admin answers
        adminVerification_findFirst_def found upd adminVerification_deleteMany_def cleanup_throws)
  with kept show ?thesis by (simp add: verify_failed_def)
qed

theorem verifyAdminPasscode_cleanup_failure_example:
  "verifyAdminPasscode (\<lambda>c. c = AdminVerification_deleteMany) 5 6 example_db ''a@hotel.com'' ''123456''
     = (example_db\<lparr>adminVerifications := [example_verification\<lparr>ver_used := True\<rparr>]\<rparr>,
        \<lparr>vp_success = False, vp_adminId = None, vp_hotelId = None,
         vp_message = ''Failed to verify passcode''\<rparr>)"
proof -
  have h1: "find (\<lambda>a. admin_email a = ''a@hotel.com'') (admins example_db) = Some example_admin"
    by (simp add: example_db_def example_admin_def)
  have h2: "latest (filter (verification_matches (admin_id example_admin) ''123456'' 5)
              (adminVerifications example_db)) = Some example_verification"
    by (simp add: example_db_def example_admin_def example_verification_def
        verification_matches_def latest_def)
  from verifyAdminPasscode_cleanup_failure [of "''a@hotel.com''" example_db example_admin
      "''123456''" 5 example_verification "\<lambda>c. c = AdminVerification_deleteMany" 6, OF h1 h2]
  show ?thesis
    by (simp add: verifyAdminPasscode_def admin_findUnique_email_def
        adminVerification_findFirst_def adminVerification_update_def
        adminVerification_deleteMany_def example_db_def example_admin_def
        example_verification_def verification_matches_def latest_def mark_used_def
        verify_failed_def)
qed

section \<open>Properties of overlapping attempts\<close>

text \<open>An attempt that runs its four steps alone is a call of \<open>verifyAdminPasscode\<close>.\<close>

lemma run_attempt_verify:
  "run_attempt fl [c0, now, c2, now'] (d, Start email passcode) =
     (case verifyAdminPasscode fl now now' d email passcode of (d', r) \<Rightarrow> (d', Done r))"
  by (simp add: attempt_step_def verifyAdminPasscode_def
      split: sum.splits option.splits)

lemma ver_id_mark_used: "ver_id (mark_used vid x) = ver_id x"
  by (simp add: mark_used_def)

lemma update_applies:
  assumes "v \<in> set vs"
  shows "adminVerification_update no_faults (d\<lparr>adminVerifications := vs\<rparr>) (ver_id v)
           = Inr (d\<lparr>adminVerifications := map (mark_used (ver_id v)) vs\<rparr>)"
  using assms by (auto simp: adminVerification_update_def list_ex_iff no_faults_apply)

text \<open>
  C9: the lookup reads \<open>used = false\<close> and the update that follows addresses the row by
  its id alone, with no condition on \<open>used\<close>. When two attempts with the same passcode
  both run their lookup before either runs its update, each finds a valid row, both updates
  go through, and both attempts end in success: the passcode is accepted twice.
\<close>

theorem race_lookups_before_update_both_succeed:
  assumes admin: "find (\<lambda>a. admin_email a = email) (admins d) = Some a"
    and first: "latest (filter (verification_matches (admin_id a) passcode now1)
                  (adminVerifications d)) = Some v1"
    and second: "latest (filter (verification_matches (admin_id a) passcode now2)
                   (adminVerifications d)) = Some v2"
  shows "snd (race no_faults
                [(First, c1), (Second, c2), (First, now1), (Second, now2),
                 (First, c5), (Second, c6), (First, c7), (Second, c8)]
                (d, Start email passcode, Start email passcode))
           = (Done (verify_ok a), Done (verify_ok a))"
proof -
  let ?vs = "adminVerifications d"
  let ?vs1 = "map (mark_used (ver_id v1)) ?vs"
  from first have m1: "v1 \<in> set ?vs" by (rule latest_matches [THEN conjunct1])
  from second have "v2 \<in> set ?vs" by (rule latest_matches [THEN conjunct1])
  then have "mark_used (ver_id v1) v2 \<in> set ?vs1" by simp
  from update_applies [OF this, of d]
  have u2: "adminVerification_update no_faults (d\<lparr>adminVerifications := ?vs1\<rparr>) (ver_id v2)
           = Inr (d\<lparr>adminVerifications := map (mark_used (ver_id v2)) ?vs1\<rparr>)"
    by (simp add: ver_id_mark_used)
  from update_applies [OF m1, of d]
  have u1: "adminVerification_update no_faults d (ver_id v1)
           = Inr (d\<lparr>adminVerifications := ?vs1\<rparr>)"
    by simp
  show ?thesis
    by (simp add: attempt_step_def admin_findUnique_email_def admin
        adminVerification_findFirst_def first second u1 u2
        adminVerification_deleteMany_def no_faults_apply)
qed

text \<open>The same on the example store, step by step.\<close>

theorem race_both_succeed:
  "succeeded (fst (snd (race no_faults
       [(First, 1), (Second, 2), (First, 3), (Second, 4), (First, 5), (Second, 6),
        (First, 7), (Second, 8)]
       (example_db, Start ''a@hotel.com'' ''123456'', Start ''a@hotel.com'' ''123456''))))
   \<and> succeeded (snd (snd (race no_faults
       [(First, 1), (Second, 2), (First, 3), (Second, 4), (First, 5), (Second, 6),
        (First, 7), (Second, 8)]
       (example_db, Start ''a@hotel.com'' ''123456'', Start ''a@hotel.com'' ''123456''))))"
proof -
  have h1: "find (\<lambda>a. admin_email a = ''a@hotel.com'') (admins example_db) = Some example_admin"
    by (simp add: example_db_def example_admin_def)
  have h2: "latest (filter (verification_matches (admin_id example_admin) ''123456'' 3)
              (adminVerifications example_db)) = Some example_verification"
    by (simp add: example_db_def example_admin_def example_verification_def
        verification_matches_def latest_def)
  have h3: "latest (filter (verification_matches (admin_id example_admin) ''123456'' 4)
              (adminVerifications example_db)) = Some example_verification"
    by (simp add: example_db_def example_admin_def example_verification_def
        verification_matches_def latest_def)
  from race_lookups_before_update_both_succeed [OF h1 h2 h3, of 1 2 5 6 7 8]
  show ?thesis by (simp add: succeeded_def verify_ok_def)
qed

section \<open>Properties of the guest upsert\<close>

lemma foldr_max_upper: "x \<in> set ids \<Longrightarrow> x \<le> foldr max ids (0::int)"
  by (induction ids) auto

lemma fresh_id_new: "fresh_id ids \<notin> set ids"
proof
  assume "fresh_id ids \<in> set ids"
  then have "fresh_id ids \<le> foldr max ids 0" by (rule foldr_max_upper)
  then show False by (simp add: fresh_id_def)
qed

lemma find_snoc_new: "find P xs = None \<Longrightarrow> P y \<Longrightarrow> find P (xs @ [y]) = Some y"
  by (induction xs) (auto split: if_splits)

lemma find_email_rename:
  "find (\<lambda>x. guest_email x = email) (map (rename_guest gid name) gs)
     = map_option (rename_guest gid name) (find (\<lambda>x. guest_email x = email) gs)"
  by (induction gs) (auto simp: rename_guest_def)

lemma find_id_exists:
  "find (\<lambda>x. guest_email x = email) gs = Some g
     \<Longrightarrow> \<exists>g'. find (\<lambda>x. guest_id x = guest_id g) gs = Some g' \<and> guest_id g' = guest_id g"
  by (induction gs) (auto split: if_splits)

lemma findOrCreateGuest_absent:
  assumes "find (\<lambda>x. guest_email x = email) (guests d) = None"
  shows "findOrCreateGuest no_faults d email name =
           (d\<lparr>guests := guests d @ [\<lparr>guest_id = fresh_id (map guest_id (guests d)),
                                      guest_name = name, guest_email = email\<rparr>]\<rparr>,
            \<lparr>fg_success = True, fg_guestId = Some (fresh_id (map guest_id (guests d))),
             fg_message = ''Guest created successfully''\<rparr>)"
proof -
  from assms have "\<not> list_ex (\<lambda>g. guest_email g = email) (guests d)"
    by (simp add: find_None_iff list_ex_iff)
  with assms show ?thesis
    by (simp add: findOrCreateGuest_def guest_findUnique_email_def guest_create_def
        no_faults_def Let_def)
qed

lemma findOrCreateGuest_same:
  assumes "find (\<lambda>x. guest_email x = email) (guests d) = Some g"
    and "guest_name g = name"
  shows "findOrCreateGuest no_faults d email name =
           (d, \<lparr>fg_success = True, fg_guestId = Some (guest_id g), fg_message = ''Guest found''\<rparr>)"
  using assms
  by (simp add: findOrCreateGuest_def guest_findUnique_email_def no_faults_def Let_def)

lemma findOrCreateGuest_renamed:
  assumes found: "find (\<lambda>x. guest_email x = email) (guests d) = Some g"
    and differs: "guest_name g \<noteq> name" and given: "name \<noteq> []"
  shows "findOrCreateGuest no_faults d email name =
           (d\<lparr>guests := map (rename_guest (guest_id g) name) (guests d)\<rparr>,
            \<lparr>fg_success = True, fg_guestId = Some (guest_id g), fg_message = ''Guest found''\<rparr>)"
proof -
  from found obtain g' where "find (\<lambda>x. guest_id x = guest_id g) (guests d) = Some g'"
    and "guest_id g' = guest_id g"
    using find_id_exists by blast
  with found differs given show ?thesis
    by (simp add: findOrCreateGuest_def guest_findUnique_email_def guest_update_def
        no_faults_def Let_def)
qed

text \<open>After a call the guest of that email carries the given name, under the returned id.\<close>

lemma findOrCreateGuest_stored:
  assumes "name \<noteq> []"
  shows "case findOrCreateGuest no_faults d email name of
           (d1, r) \<Rightarrow>
             fg_success r
             \<and> (\<exists>g. find (\<lambda>x. guest_email x = email) (guests d1) = Some g
                    \<and> guest_name g = name \<and> guest_email g = email
                    \<and> fg_guestId r = Some (guest_id g))"
proof (cases "find (\<lambda>x. guest_email x = email) (guests d)")
  case None
  then show ?thesis
    by (simp add: findOrCreateGuest_absent find_snoc_new)
next
  case (Some g)
  then have mail: "guest_email g = email" by (auto dest: find_Some_iff [THEN iffD1])
  show ?thesis
  proof (cases "guest_name g = name")
    case True
    with Some mail show ?thesis by (simp add: findOrCreateGuest_same)
  next
    case False
    with Some assms mail show ?thesis
      by (simp add: findOrCreateGuest_renamed find_email_rename rename_guest_def)
  qed
qed

lemma findOrCreateGuest_existing:
  assumes found: "find (\<lambda>x. guest_email x = email) (guests d) = Some g" and given: "name \<noteq> []"
  shows "case findOrCreateGuest no_faults d email name of
           (d1, r) \<Rightarrow>
             fg_success r \<and> fg_guestId r = Some (guest_id g)
             \<and> find (\<lambda>x. guest_email x = email) (guests d1) = Some (g\<lparr>guest_name := name\<rparr>)
             \<and> (d1 = d \<longleftrightarrow> guest_name g = name)"
proof (cases "guest_name g = name")
  case True
  with found show ?thesis by (simp add: findOrCreateGuest_same)
next
  case False
  let ?d1 = "d\<lparr>guests := map (rename_guest (guest_id g) name) (guests d)\<rparr>"
  have look: "find (\<lambda>x. guest_email x = email) (guests ?d1) = Some (g\<lparr>guest_name := name\<rparr>)"
    using found by (simp add: find_email_rename rename_guest_def)
  have "?d1 \<noteq> d"
  proof
    assume "?d1 = d"
    with look found have "g\<lparr>guest_name := name\<rparr> = g" by simp
    then have "guest_name (g\<lparr>guest_name := name\<rparr>) = guest_name g" by simp
    with False show False by simp
  qed
  with found False given look show ?thesis by (simp add: findOrCreateGuest_renamed)
qed

lemma guestLogins_same_id:
  assumes "find (\<lambda>x. guest_email x = email) (guests d) = Some g"
    and "list_all (\<lambda>n. n \<noteq> []) names"
  shows "list_all (\<lambda>r. fg_success r \<and> fg_guestId r = Some (guest_id g))
           (snd (guestLogins no_faults d email names))"
  using assms
proof (induction names arbitrary: d g)
  case Nil
  then show ?case by simp
next
  case (Cons name names)
  obtain d1 r where call: "findOrCreateGuest no_faults d email name = (d1, r)"
    by (cases "findOrCreateGuest no_faults d email name")
  from Cons.prems have given: "name \<noteq> []" and rest: "list_all (\<lambda>n. n \<noteq> []) names"
    by simp_all
  from findOrCreateGuest_existing [OF Cons.prems(1) given] call
  have r: "fg_success r \<and> fg_guestId r = Some (guest_id g)"
    and look: "find (\<lambda>x. guest_email x = email) (guests d1) = Some (g\<lparr>guest_name := name\<rparr>)"
    by simp_all
  from Cons.IH [OF look rest]
  have "list_all (\<lambda>r. fg_success r \<and> fg_guestId r = Some (guest_id g))
          (snd (guestLogins no_faults d1 email names))"
    by simp
  with r call show ?case by (auto split: prod.splits)
qed

text \<open>
  C8: with a repository that answers and a non-empty name, \<open>findOrCreateGuest\<close> succeeds
  and afterwards the guest of that email carries the given name under the returned id. When
  no guest had the email, one row with a new id is added; when a guest had it, that guest's
  id is returned and the store changes exactly when the given name differs from the stored
  one. Every later call for the email, with any non-empty names, returns the same id.
\<close>

theorem findOrCreateGuest_upsert:
  assumes given: "list_all (\<lambda>n. n \<noteq> []) (name # names)"
  shows "case findOrCreateGuest no_faults d email name of
           (d1, r) \<Rightarrow>
             fg_success r
             \<and> (\<exists>g. find (\<lambda>x. guest_email x = email) (guests d1) = Some g
                    \<and> guest_name g = name \<and> guest_email g = email
                    \<and> fg_guestId r = Some (guest_id g))
             \<and> (case find (\<lambda>x. guest_email x = email) (guests d) of
                   None \<Rightarrow>
                     (\<exists>g. guests d1 = guests d @ [g]
                        \<and> guest_id g \<notin> set (map guest_id (guests d)))
                 | Some g0 \<Rightarrow>
                     fg_guestId r = Some (guest_id g0)
                     \<and> (d1 = d \<longleftrightarrow> guest_name g0 = name))
             \<and> list_all (\<lambda>r'. fg_success r' \<and> fg_guestId r' = fg_guestId r)
                   (snd (guestLogins no_faults d1 email names))"
proof -
  obtain d1 r where call: "findOrCreateGuest no_faults d email name = (d1, r)"
    by (cases "findOrCreateGuest no_faults d email name")
  from given have name: "name \<noteq> []" and rest: "list_all (\<lambda>n. n \<noteq> []) names"
    by simp_all
  from findOrCreateGuest_stored [OF name, where d = d and email = email] call
  have ok: "fg_success r"
    and stored: "\<exists>g. find (\<lambda>x. guest_email x = email) (guests d1) = Some g
                    \<and> guest_name g = name \<and> guest_email g = email
                    \<and> fg_guestId r = Some (guest_id g)"
    by simp_all
  from stored obtain g where look: "find (\<lambda>x. guest_email x = email) (guests d1) = Some g"
    and rid: "fg_guestId r = Some (guest_id g)"
    by blast
  from guestLogins_same_id [OF look rest] rid
  have again: "list_all (\<lambda>r'. fg_success r' \<and> fg_guestId r' = fg_guestId r)
                 (snd (guestLogins no_faults d1 email names))"
    by simp
  have before: "case find (\<lambda>x. guest_email x = email) (guests d) of
                   None \<Rightarrow>
                     (\<exists>g. guests d1 = guests d @ [g]
                        \<and> guest_id g \<notin> set (map guest_id (guests d)))
                 | Some g0 \<Rightarrow>
                     fg_guestId r = Some (guest_id g0)
                     \<and> (d1 = d \<longleftrightarrow> guest_name g0 = name)"
  proof (cases "find (\<lambda>x. guest_email x = email) (guests d)")
    case None
    with call fresh_id_new [of "map guest_id (guests d)"] show ?thesis
      by (auto simp: findOrCreateGuest_absent)
  next
    case (Some g0)
    from findOrCreateGuest_existing [OF Some name] call
    have e: "fg_guestId r = Some (guest_id g0)" "(d1 = d) = (guest_name g0 = name)"
      by simp_all
    from Some e show ?thesis by simp
  qed
  from ok stored before again call show ?thesis by simp
qed

theorem findOrCreateGuest_upsert_witness:
  "list_all (\<lambda>n. n \<noteq> []) [''Alice'', ''Alicia'', ''Alicia'']
   \<and> findOrCreateGuest no_faults example_db ''g@x.com'' ''Alice''
       = (example_db\<lparr>guests := [\<lparr>guest_id = 1, guest_name = ''Alice'', guest_email = ''g@x.com''\<rparr>]\<rparr>,
          \<lparr>fg_success = True, fg_guestId = Some 1, fg_message = ''Guest created successfully''\<rparr>)
   \<and> guestLogins no_faults
         (example_db\<lparr>guests := [\<lparr>guest_id = 1, guest_name = ''Alice'', guest_email = ''g@x.com''\<rparr>]\<rparr>)
         ''g@x.com'' [''Alicia'', ''Alicia'']
       = (example_db\<lparr>guests := [\<lparr>guest_id = 1, guest_name = ''Alicia'', guest_email = ''g@x.com''\<rparr>]\<rparr>,
          [\<lparr>fg_success = True, fg_guestId = Some 1, fg_message = ''Guest found''\<rparr>,
           \<lparr>fg_success = True, fg_guestId = Some 1, fg_message = ''Guest found''\<rparr>])"
proof -
  have h: "list_all (\<lambda>n. n \<noteq> []) [''Alice'', ''Alicia'', ''Alicia'']" by simp
  have run: "findOrCreateGuest no_faults example_db ''g@x.com'' ''Alice''
       = (example_db\<lparr>guests := [\<lparr>guest_id = 1, guest_name = ''Alice'', guest_email = ''g@x.com''\<rparr>]\<rparr>,
          \<lparr>fg_success = True, fg_guestId = Some 1, fg_message = ''Guest created successfully''\<rparr>)"
    by (simp add: findOrCreateGuest_def guest_findUnique_email_def guest_create_def
        no_faults_def example_db_def fresh_id_def Let_def)
  have again: "guestLogins no_faults
         (example_db\<lparr>guests := [\<lparr>guest_id = 1, guest_name = ''Alice'', guest_email = ''g@x.com''\<rparr>]\<rparr>)
         ''g@x.com'' [''Alicia'', ''Alicia'']
       = (example_db\<lparr>guests := [\<lparr>guest_id = 1, guest_name = ''Alicia'', guest_email = ''g@x.com''\<rparr>]\<rparr>,
          [\<lparr>fg_success = True, fg_guestId = Some 1, fg_message = ''Guest found''\<rparr>,
           \<lparr>fg_success = True, fg_guestId = Some 1, fg_message = ''Guest found''\<rparr>])"
    by (simp add: findOrCreateGuest_def guest_findUnique_email_def guest_update_def
        no_faults_def example_db_def rename_guest_def Let_def)
  from findOrCreateGuest_upsert [OF h, where d = example_db and email = "''g@x.com''"] h run again show ?thesis
    by simp
qed

section \<open>Properties of the hotel access predicates\<close>

lemma find_unique_key:
  assumes "distinct (map key xs)"
  shows "(\<exists>x\<in>set xs. key x = k \<and> P x) \<longleftrightarrow> (case find (\<lambda>x. key x = k) xs of None \<Rightarrow> False | Some x \<Rightarrow> P x)"
  using assms
proof (induction xs)
  case Nil
  then show ?case by simp
next
  case (Cons y ys)
  then show ?case by (auto split: option.splits simp: rev_image_eqI)
qed

lemma find_ex: "(\<exists>x\<in>set xs. P x) \<longleftrightarrow> find P xs \<noteq> None"
  by (auto simp: find_None_iff)

text \<open>
  C10: with admin ids being keys, \<open>verifyAdminHotelAccess\<close> is true exactly when the lookup
  answers and an admin with that id has that hotel id; \<open>verifyGuestHotelAccess\<close> is true
  exactly when the lookup answers and the guest has an order at that hotel. A lookup that
  throws gives false.
\<close>

theorem hotel_access_fail_closed:
  assumes keys: "distinct (map admin_id (admins d))"
  shows "(verifyAdminHotelAccess fl d adminId hotelId \<longleftrightarrow>
            \<not> fl Admin_findUnique
            \<and> (\<exists>a\<in>set (admins d). admin_id a = adminId \<and> admin_hotelId a = hotelId))
         \<and> (verifyGuestHotelAccess fl d guestId hotelId \<longleftrightarrow>
            \<not> fl Order_findFirst
            \<and> (\<exists>ord\<in>set (orders d). order_guestId ord = guestId \<and> order_hotelId ord = hotelId))"
proof
  from keys
  have "(\<exists>a\<in>set (admins d). admin_id a = adminId \<and> admin_hotelId a = hotelId) \<longleftrightarrow>
          (case find (\<lambda>a. admin_id a = adminId) (admins d) of
             None \<Rightarrow> False | Some a \<Rightarrow> admin_hotelId a = hotelId)"
    by (rule find_unique_key)
  then show "verifyAdminHotelAccess fl d adminId hotelId \<longleftrightarrow>
            \<not> fl Admin_findUnique
            \<and> (\<exists>a\<in>set (admins d). admin_id a = adminId \<and> admin_hotelId a = hotelId)"
    by (simp add: verifyAdminHotelAccess_def admin_findUnique_id_def split: option.splits)
next
  have "(\<exists>ord\<in>set (orders d). order_guestId ord = guestId \<and> order_hotelId ord = hotelId) \<longleftrightarrow>
          find (\<lambda>ord. order_guestId ord = guestId \<and> order_hotelId ord = hotelId) (orders d) \<noteq> None"
    by (rule find_ex)
  then show "verifyGuestHotelAccess fl d guestId hotelId \<longleftrightarrow>
            \<not> fl Order_findFirst
            \<and> (\<exists>ord\<in>set (orders d). order_guestId ord = guestId \<and> order_hotelId ord = hotelId)"
    by (simp add: verifyGuestHotelAccess_def order_findFirst_def split: option.splits)
qed

theorem hotel_access_fail_closed_witness:
  "distinct (map admin_id (admins example_orders))
   \<and> verifyAdminHotelAccess no_faults example_orders 1 7
   \<and> \<not> verifyAdminHotelAccess no_faults example_orders 1 8
   \<and> \<not> verifyAdminHotelAccess no_faults example_orders 2 7
   \<and> \<not> verifyAdminHotelAccess (\<lambda>c. c = Admin_findUnique) example_orders 1 7
   \<and> verifyGuestHotelAccess no_faults example_orders 3 7
   \<and> \<not> verifyGuestHotelAccess no_faults example_orders 3 8
   \<and> \<not> verifyGuestHotelAccess (\<lambda>c. c = Order_findFirst) example_orders 3 7"
proof -
  have h: "distinct (map admin_id (admins example_orders))"
    by (simp add: example_orders_def example_db_def)
  have facts: "set (admins example_orders) = {example_admin}"
    "set (orders example_orders) = {\<lparr>order_id = 1, order_guestId = 3, order_hotelId = 7\<rparr>}"
    by (simp_all add: example_orders_def example_db_def)
  note t = hotel_access_fail_closed [OF h]
  from h facts
    t [where fl = no_faults and adminId = 1 and hotelId = 7 and guestId = 3]
    t [where fl = no_faults and adminId = 1 and hotelId = 8 and guestId = 3]
    t [where fl = no_faults and adminId = 2 and hotelId = 7 and guestId = 3]
    t [where fl = "\<lambda>c. c = Admin_findUnique" and adminId = 1 and hotelId = 7 and guestId = 3]
    t [where fl = "\<lambda>c. c = Order_findFirst" and adminId = 1 and hotelId = 7 and guestId = 3]
  show ?thesis
    by (simp add: example_admin_def no_faults_def)
qed

section \<open>Properties of token verification\<close>

lemma verifyToken_library:
  "verifyToken (library_env lib secret) token =
     (case jsonwebtoken_verify lib token (JWT_SECRET (library_env lib secret)) ''zapmenu'' of
        Inr decoded \<Rightarrow> Some decoded | Inl error \<Rightarrow> None)"
  by (simp add: verifyToken_def library_env_def)

text \<open>
  C6: \<open>verifyToken\<close> returns \<^verbatim>\<open>null\<close> for an empty or malformed token, for a token
  whose signature is not the one the configured secret gives, for an expired token, for a
  token that is not yet valid and for a token of another issuer than \<^verbatim>\<open>zapmenu\<close>; it
  returns the embedded payload when all of these checks pass. Whatever the library throws
  ends in \<^verbatim>\<open>null\<close>: the result is a payload or \<^verbatim>\<open>null\<close> for every string.
\<close>

theorem verifyToken_nullable:
  "(token = [] \<or> jws_decode lib token = None
      \<longrightarrow> verifyToken (library_env lib secret) token = None)
   \<and> (token \<noteq> [] \<and> jws_decode lib token = Some t
        \<and> jws_signature t \<noteq> jws_sign lib (JWT_SECRET (library_env lib secret)) (jws_input t)
      \<longrightarrow> verifyToken (library_env lib secret) token = None)
   \<and> (token \<noteq> [] \<and> jws_decode lib token = Some t
        \<and> jws_exp t = Some x \<and> x \<le> jwt_clock lib
      \<longrightarrow> verifyToken (library_env lib secret) token = None)
   \<and> (token \<noteq> [] \<and> jws_decode lib token = Some t
        \<and> jws_nbf t = Some n \<and> jwt_clock lib < n
      \<longrightarrow> verifyToken (library_env lib secret) token = None)
   \<and> (token \<noteq> [] \<and> jws_decode lib token = Some t \<and> jws_iss t \<noteq> Some ''zapmenu''
      \<longrightarrow> verifyToken (library_env lib secret) token = None)
   \<and> (token \<noteq> [] \<and> jws_decode lib token = Some t
        \<and> jws_signature t = jws_sign lib (JWT_SECRET (library_env lib secret)) (jws_input t)
        \<and> (\<forall>x. jws_exp t = Some x \<longrightarrow> jwt_clock lib < x)
        \<and> (\<forall>n. jws_nbf t = Some n \<longrightarrow> n \<le> jwt_clock lib)
        \<and> jws_iss t = Some ''zapmenu''
      \<longrightarrow> verifyToken (library_env lib secret) token = Some (jws_payload t))
   \<and> (\<forall>e. jwt_verify env token (JWT_SECRET env) ''zapmenu'' = Inl e
        \<longrightarrow> verifyToken env token = None)"
proof (intro conjI impI allI)
  assume "token = [] \<or> jws_decode lib token = None"
  then show "verifyToken (library_env lib secret) token = None"
    by (auto simp: verifyToken_library jsonwebtoken_verify_def)
next
  assume "token \<noteq> [] \<and> jws_decode lib token = Some t
        \<and> jws_signature t \<noteq> jws_sign lib (JWT_SECRET (library_env lib secret)) (jws_input t)"
  then show "verifyToken (library_env lib secret) token = None"
    by (simp add: verifyToken_library jsonwebtoken_verify_def)
next
  assume "token \<noteq> [] \<and> jws_decode lib token = Some t \<and> jws_exp t = Some x \<and> x \<le> jwt_clock lib"
  then have "token \<noteq> []" "jws_decode lib token = Some t" "expired_at lib t = Some x"
    by (simp_all add: expired_at_def)
  then show "verifyToken (library_env lib secret) token = None"
    by (simp add: verifyToken_library jsonwebtoken_verify_def split: option.splits)
next
  assume "token \<noteq> [] \<and> jws_decode lib token = Some t \<and> jws_nbf t = Some n \<and> jwt_clock lib < n"
  then have "token \<noteq> []" "jws_decode lib token = Some t" "not_before lib t = Some n"
    by (simp_all add: not_before_def)
  then show "verifyToken (library_env lib secret) token = None"
    by (simp add: verifyToken_library jsonwebtoken_verify_def)
next
  assume "token \<noteq> [] \<and> jws_decode lib token = Some t \<and> jws_iss t \<noteq> Some ''zapmenu''"
  then show "verifyToken (library_env lib secret) token = None"
    by (simp add: verifyToken_library jsonwebtoken_verify_def split: option.splits)
next
  assume a: "token \<noteq> [] \<and> jws_decode lib token = Some t
        \<and> jws_signature t = jws_sign lib (JWT_SECRET (library_env lib secret)) (jws_input t)
        \<and> (\<forall>x. jws_exp t = Some x \<longrightarrow> jwt_clock lib < x)
        \<and> (\<forall>n. jws_nbf t = Some n \<longrightarrow> n \<le> jwt_clock lib)
        \<and> jws_iss t = Some ''zapmenu''"
  then have "expired_at lib t = None" "not_before lib t = None"
    by (auto simp: expired_at_def not_before_def split: option.splits)
  with a show "verifyToken (library_env lib secret) token = Some (jws_payload t)"
    by (simp add: verifyToken_library jsonwebtoken_verify_def)
next
  fix e
  assume "jwt_verify env token (JWT_SECRET env) ''zapmenu'' = Inl e"
  then show "verifyToken env token = None"
    by (simp add: verifyToken_def)
qed

theorem verifyToken_nullable_witness:
  "verifyToken (library_env example_lib (Some ''s3cret'')) ''h.admin1.good''
     = Some (AdminAuthPayload 1 7 ''a@hotel.com'')
   \<and> verifyToken (library_env example_lib (Some ''s3cret'')) ''h.admin1.forged'' = None
   \<and> verifyToken (library_env example_lib (Some ''s3cret'')) ''h.old.good'' = None
   \<and> verifyToken (library_env example_lib (Some ''s3cret'')) ''h.early.good'' = None
   \<and> verifyToken (library_env example_lib (Some ''s3cret'')) ''h.other.good'' = None
   \<and> verifyToken (library_env example_lib (Some ''s3cret'')) ''not a token'' = None
   \<and> verifyToken (library_env example_lib (Some ''s3cret'')) [] = None
   \<and> verifyToken (library_env example_lib None) ''h.admin1.good'' = None"
proof -
  let ?env = "library_env example_lib (Some ''s3cret'')"
  have key: "JWT_SECRET ?env = ''s3cret''"
    "JWT_SECRET (library_env example_lib None) = ''your-secret-key-change-in-production''"
    by (simp_all add: JWT_SECRET_def library_env_def)
  have lib: "jws_sign example_lib = (\<lambda>secret input. secret @ ''/'' @ input)"
    "jwt_clock example_lib = 1500" "jws_decode example_lib = example_decode"
    by (simp_all add: example_lib_def)
  have dec: "example_decode ''h.admin1.good'' = Some example_token"
    "example_decode ''h.admin1.forged'' = Some (example_token\<lparr>jws_signature := ''guess/h.admin1''\<rparr>)"
    "example_decode ''h.old.good''
       = Some (example_token\<lparr>jws_input := ''h.old'', jws_signature := ''s3cret/h.old'',
                             jws_exp := Some 1400\<rparr>)"
    "example_decode ''h.early.good''
       = Some (example_token\<lparr>jws_input := ''h.early'', jws_signature := ''s3cret/h.early'',
                             jws_nbf := Some 1600\<rparr>)"
    "example_decode ''h.other.good''
       = Some (example_token\<lparr>jws_input := ''h.other'', jws_signature := ''s3cret/h.other'',
                             jws_iss := Some ''someone''\<rparr>)"
    "example_decode ''not a token'' = None"
    by (simp_all add: example_decode_def)
  note t = verifyToken_nullable [where lib = example_lib]
  from t [where secret = "Some ''s3cret''" and token = "''h.admin1.good''" and t = example_token]
  have good: "verifyToken ?env ''h.admin1.good'' = Some (AdminAuthPayload 1 7 ''a@hotel.com'')"
    by (simp add: key lib dec example_token_def)
  from t [where secret = "Some ''s3cret''" and token = "''h.admin1.forged''"
      and t = "example_token\<lparr>jws_signature := ''guess/h.admin1''\<rparr>"]
  have forged: "verifyToken ?env ''h.admin1.forged'' = None"
    by (simp add: key lib dec example_token_def)
  from t [where secret = "Some ''s3cret''" and token = "''h.old.good''" and x = 1400
      and t = "example_token\<lparr>jws_input := ''h.old'', jws_signature := ''s3cret/h.old'',
                             jws_exp := Some 1400\<rparr>"]
  have old: "verifyToken ?env ''h.old.good'' = None"
    by (simp add: key lib dec example_token_def)
  from t [where secret = "Some ''s3cret''" and token = "''h.early.good''" and n = 1600
      and t = "example_token\<lparr>jws_input := ''h.early'', jws_signature := ''s3cret/h.early'',
                             jws_nbf := Some 1600\<rparr>"]
  have early: "verifyToken ?env ''h.early.good'' = None"
    by (simp add: key lib dec example_token_def)
  from t [where secret = "Some ''s3cret''" and token = "''h.other.good''"
      and t = "example_token\<lparr>jws_input := ''h.other'', jws_signature := ''s3cret/h.other'',
                             jws_iss := Some ''someone''\<rparr>"]
  have other: "verifyToken ?env ''h.other.good'' = None"
    by (simp add: key lib dec example_token_def)
  from t [where secret = "Some ''s3cret''" and token = "''not a token''"]
  have malformed: "verifyToken ?env ''not a token'' = None"
    by (simp add: lib dec)
  from t [where secret = "Some ''s3cret''" and token = "[]"]
  have empty: "verifyToken ?env [] = None"
    by simp
  from t [where secret = None and token = "''h.admin1.good''" and t = example_token]
  have wrong_key: "verifyToken (library_env example_lib None) ''h.admin1.good'' = None"
    by (simp add: key lib dec example_token_def)
  from good forged old early other malformed empty wrong_key show ?thesis by simp
qed

text \<open>
  How a token is minted, and that a token with one character changed is rejected, rests on
  the strength of the library's signature; neither is a statement about the helpers.
\<close>

section \<open>Properties of the access guard\<close>

lemma getAdminById_missing:
  "\<forall>a\<in>set (admins d). admin_id a \<noteq> adminId \<Longrightarrow> getAdminById fl d adminId = None"
  by (auto simp: getAdminById_def admin_findUnique_id_def find_None_iff)

lemma getGuestById_missing:
  "\<forall>g\<in>set (guests d). guest_id g \<noteq> guestId \<Longrightarrow> getGuestById fl d guestId = None"
  by (auto simp: getGuestById_def guest_findUnique_id_def find_None_iff)

text \<open>
  C4: a request whose token verifies as an admin (guest) token is answered with 401 and
  left without a principal when the repository holds no admin (guest) with the id in the
  token, whether or not the lookup itself answers.
\<close>

theorem guard_rejects_missing_principal:
  assumes header: "extractTokenFromHeader (authorization req) = Some token"
  shows "(verifyToken env token = Some (AdminAuthPayload adminId hotelId email)
            \<and> (\<forall>a\<in>set (admins d). admin_id a \<noteq> adminId)
          \<longrightarrow> authenticateAdmin env fl d req =
                (req, Json 401 (if token = [] then ''Authentication required''
                                else ''Admin not found'')))
       \<and> (verifyToken env token = Some (GuestAuthPayload guestId email)
            \<and> (\<forall>g\<in>set (guests d). guest_id g \<noteq> guestId)
          \<longrightarrow> authenticateGuest env fl d req =
                (req, Json 401 (if token = [] then ''Authentication required''
                                else ''Guest not found'')))"
proof (intro conjI impI)
  assume "verifyToken env token = Some (AdminAuthPayload adminId hotelId email)
            \<and> (\<forall>a\<in>set (admins d). admin_id a \<noteq> adminId)"
  then have payload: "verifyToken env token = Some (AdminAuthPayload adminId hotelId email)"
    and gone: "getAdminById fl d adminId = None"
    by (simp_all add: getAdminById_missing)
  show "authenticateAdmin env fl d req =
          (req, Json 401 (if token = [] then ''Authentication required'' else ''Admin not found''))"
    by (simp add: authenticateAdmin_def header payload gone)
next
  assume "verifyToken env token = Some (GuestAuthPayload guestId email)
            \<and> (\<forall>g\<in>set (guests d). guest_id g \<noteq> guestId)"
  then have payload: "verifyToken env token = Some (GuestAuthPayload guestId email)"
    and gone: "getGuestById fl d guestId = None"
    by (simp_all add: getGuestById_missing)
  show "authenticateGuest env fl d req =
          (req, Json 401 (if token = [] then ''Authentication required'' else ''Guest not found''))"
    by (simp add: authenticateGuest_def header payload gone)
qed

theorem guard_rejects_missing_principal_witness:
  "extractTokenFromHeader (authorization (example_request\<lparr>authorization := Some ''Bearer admin-2''\<rparr>))
     = Some ''admin-2''
   \<and> verifyToken example_env ''admin-2'' = Some (AdminAuthPayload 2 7 ''b@hotel.com'')
   \<and> list_all (\<lambda>a. admin_id a \<noteq> 2) (admins example_orders)
   \<and> authenticateAdmin example_env no_faults example_orders
         (example_request\<lparr>authorization := Some ''Bearer admin-2''\<rparr>)
       = (example_request\<lparr>authorization := Some ''Bearer admin-2''\<rparr>, Json 401 ''Admin not found'')
   \<and> extractTokenFromHeader (authorization (example_request\<lparr>authorization := Some ''guest-4''\<rparr>))
     = Some ''guest-4''
   \<and> verifyToken example_env ''guest-4'' = Some (GuestAuthPayload 4 ''h@x.com'')
   \<and> list_all (\<lambda>g. guest_id g \<noteq> 4) (guests example_orders)
   \<and> authenticateGuest example_env no_faults example_orders
         (example_request\<lparr>authorization := Some ''guest-4''\<rparr>)
       = (example_request\<lparr>authorization := Some ''guest-4''\<rparr>, Json 401 ''Guest not found'')"
proof -
  have a1: "extractTokenFromHeader (authorization (example_request\<lparr>authorization := Some ''Bearer admin-2''\<rparr>))
     = Some ''admin-2''"
    by (simp add: extractTokenFromHeader_def)
  have a2: "verifyToken example_env ''admin-2'' = Some (AdminAuthPayload 2 7 ''b@hotel.com'')"
    by (simp add: verifyToken_def example_env_def example_jwt_verify_def JWT_SECRET_def)
  have a3: "\<forall>a\<in>set (admins example_orders). admin_id a \<noteq> 2"
    by (simp add: example_orders_def example_db_def example_admin_def)
  have g1: "extractTokenFromHeader (authorization (example_request\<lparr>authorization := Some ''guest-4''\<rparr>))
     = Some ''guest-4''"
    by (simp add: extractTokenFromHeader_def)
  have g2: "verifyToken example_env ''guest-4'' = Some (GuestAuthPayload 4 ''h@x.com'')"
    by (simp add: verifyToken_def example_env_def example_jwt_verify_def JWT_SECRET_def)
  have g3: "\<forall>g\<in>set (guests example_orders). guest_id g \<noteq> 4"
    by (simp add: example_orders_def example_db_def)
  from guard_rejects_missing_principal [OF a1, where env = example_env and d = example_orders
      and fl = no_faults and adminId = 2 and hotelId = 7 and email = "''b@hotel.com''"]
    guard_rejects_missing_principal [OF g1, where env = example_env and d = example_orders
      and fl = no_faults and guestId = 4 and email = "''h@x.com''"]
    a1 a2 a3 g1 g2 g3
  show ?thesis by (simp add: list_all_iff)
qed

section \<open>Properties of hotel scoping\<close>









text \<open>
  Concrete readings: every white space character is skipped and its look-alikes are not;
  signs, trailing text and the limit of exact integers.
\<close>

lemma parseInt_white_space:
  "list_all (\<lambda>w. parseInt (map char_of w @ ''7'') = Num 7)
     [[9], [10], [11], [12], [13], [32], [194, 160], [225, 154, 128],
      [226, 128, 128], [226, 128, 129], [226, 128, 130], [226, 128, 131], [226, 128, 132],
      [226, 128, 133], [226, 128, 134], [226, 128, 135], [226, 128, 136], [226, 128, 137],
      [226, 128, 138], [226, 128, 168], [226, 128, 169], [226, 128, 175], [226, 129, 159],
      [227, 128, 128], [239, 187, 191], [32, 194, 160, 9, 226, 128, 168 :: nat]]
   \<and> list_all (\<lambda>w. parseInt (map char_of w @ ''7'') = NaN)
     [[226, 128, 139], [225, 160, 142], [194, 133], [226, 128], [194 :: nat]]"
  by (simp add: parseInt_def is_space_def is_space2_def is_space3_def is_digit_def
      decimal_value_def digit_value_def Let_def char_of_eq_iff)

lemma parseInt_sign:
  "parseInt ''-7'' = Num (- 7) \<and> parseInt ''+7'' = Num 7 \<and> parseInt '' -7x'' = Num (- 7)
   \<and> parseInt ''--7'' = NaN \<and> parseInt ''7.9'' = Num 7 \<and> parseInt ''1e3'' = Num 1
   \<and> parseInt ''0x10'' = Num 0 \<and> parseInt ''9007199254740991'' = Num 9007199254740991
   \<and> parseInt ''9007199254740992'' = Huge \<and> parseInt ''-9007199254740993'' = Huge"
  by (simp add: parseInt_def is_space_def is_space2_def is_space3_def is_digit_def
      decimal_value_def digit_value_def Let_def char_of_eq_iff)


lemma not_present: "p = None \<or> p = Some [] \<Longrightarrow> \<not> present p"
  by (auto simp: present_def)




text \<open>Without a route parameter and without a body both middlewares answer 500.\<close>

lemma authorize_without_body:
  assumes "params_hotelId req = None \<or> params_hotelId req = Some []"
    and "body_hotelId req = None"
  shows "(req_admin req = Some adm
            \<longrightarrow> authorizeAdminHotel fl d req = (req, Json 500 ''Authorization failed''))
       \<and> (req_guest req = Some gst
            \<longrightarrow> authorizeGuestHotel fl d req = (req, Json 500 ''Authorization failed''))"
  using assms(2) not_present [OF assms(1)]
  by (simp add: authorizeAdminHotel_def authorizeGuestHotel_def resolveHotelId_def)





end
